theory Spec2Isabelle
  imports Main "HOL-Library.Word" "HOL-Library.Multiset"
begin

section \<open>The jqftu quiz session engine (muika/modules/jqftu)\<close>

text \<open>
  A shallow embedding of \<^verbatim>\<open>Session.cpp\<close>: the score board, the session registry with its
  reference counts, the worker loop with its two waits, the checkpoint written after every
  question and the recovery scan at start-up.  Threads are not modelled as such: what another
  thread does while the worker is blocked in \<^verbatim>\<open>cond_.wait_for\<close> is an input of the worker
  (a list of calls), and so is the way the wait returns.
\<close>

subsection \<open>Data model\<close>

text \<open>\<^verbatim>\<open>struct Score { uint32_t point_; std::string full_name_; std::string username_; }\<close>,
  as \<^verbatim>\<open>Session::answer\<close> builds it (field names without the trailing underscore).\<close>

record Score =
  point :: "32 word"
  full_name :: string
  username :: string

text \<open>Modelled from the spec: \<^verbatim>\<open>Card.hpp\<close> is not among the sources.  A card carries its
  question text, the two info texts and an opaque predicate that says whether an answer
  is correct (\<^verbatim>\<open>Card::answer\<close>).\<close>

record Card =
  getQuestion :: string
  getQuestionInfo :: string
  getAnswerInfo :: string
  answer_ok :: "string \<Rightarrow> bool"

text \<open>Modelled from the spec: the concrete deck (\<^verbatim>\<open>decks/tozai_line/Deck.cpp\<close>) is not among
  the sources.  A deck has a name and the cards not drawn yet, in presentation order;
  \<^verbatim>\<open>draw\<close> takes the first one and returns no card once the deck is exhausted;
  \<^verbatim>\<open>isFinished\<close> says that no card is left.\<close>

record Deck =
  deck_name :: string
  cards :: "Card list"

definition getName :: "Deck \<Rightarrow> string" where
  "getName d = deck_name d"

text \<open>Modelled from the spec: \<^verbatim>\<open>Deck::isFinished\<close> of the concrete deck.\<close>

definition isFinished :: "Deck \<Rightarrow> bool" where
  "isFinished d = (cards d = [])"

text \<open>Modelled from the spec: \<^verbatim>\<open>Deck::draw\<close> of the concrete deck.\<close>

definition draw :: "Deck \<Rightarrow> Card option \<times> Deck" where
  "draw d = (case cards d of [] \<Rightarrow> (None, d) | c # cs \<Rightarrow> (Some c, d\<lparr>cards := cs\<rparr>))"

subsection \<open>Escaping a display name\<close>

text \<open>\<^verbatim>\<open>htmlspecialchars\<close>: the loop over the characters of \<^verbatim>\<open>str\<close>, appending to \<^verbatim>\<open>ret\<close>.
  \<^verbatim>\<open>CHR 0x22\<close> is the double quote and \<^verbatim>\<open>CHR 0x27\<close> the single quote.\<close>

fun htmlspecialchars_loop :: "string \<Rightarrow> string \<Rightarrow> string" where
  "htmlspecialchars_loop ret [] = ret"
| "htmlspecialchars_loop ret (c # str) =
     htmlspecialchars_loop
       (if c = CHR ''&'' then ret @ ''&amp;''
        else if c = CHR ''<'' then ret @ ''&lt;''
        else if c = CHR ''>'' then ret @ ''&gt;''
        else if c = CHR 0x22 then ret @ ''&quot;''
        else if c = CHR 0x27 then ret @ ''&apos;''
        else ret @ [c])
       str"

definition htmlspecialchars :: "string \<Rightarrow> string" where
  "htmlspecialchars str = htmlspecialchars_loop [] str"

text \<open>The same function in the words of its description: every character is replaced by
  its entity when it is one of the five, and kept otherwise.\<close>

definition html_entity :: "char \<Rightarrow> string" where
  "html_entity c =
     (if c = CHR ''&'' then ''&amp;''
      else if c = CHR ''<'' then ''&lt;''
      else if c = CHR ''>'' then ''&gt;''
      else if c = CHR 0x22 then ''&quot;''
      else if c = CHR 0x27 then ''&apos;''
      else [c])"

definition htmlspecialchars_spec :: "string \<Rightarrow> string" where
  "htmlspecialchars_spec str = concat (map html_entity str)"

text \<open>A text has no unescaped HTML metacharacter when none of \<^verbatim>\<open>< > " '\<close> occurs in it and
  every \<^verbatim>\<open>&\<close> starts one of the five entities.\<close>

definition entity_tails :: "string list" where
  "entity_tails = [''amp;'', ''lt;'', ''gt;'', ''quot;'', ''apos;'']"

fun starts_with :: "string \<Rightarrow> string \<Rightarrow> bool" where
  "starts_with [] s = True"
| "starts_with (p # ps) [] = False"
| "starts_with (p # ps) (c # s) = (p = c \<and> starts_with ps s)"

fun html_safe :: "string \<Rightarrow> bool" where
  "html_safe [] = True"
| "html_safe (c # s) =
     (if c = CHR ''&'' then list_ex (\<lambda>t. starts_with t s) entity_tails \<and> html_safe s
      else c \<noteq> CHR ''<'' \<and> c \<noteq> CHR ''>'' \<and> c \<noteq> CHR 0x22 \<and> c \<noteq> CHR 0x27 \<and> html_safe s)"

subsection \<open>Numbers as text\<close>

text \<open>\<^verbatim>\<open>std::to_string\<close> and the \<^verbatim>\<open>%lld\<close> of \<^verbatim>\<open>snprintf\<close>: decimal digits, with a minus
  sign for a negative number.\<close>

function to_string_nat :: "nat \<Rightarrow> string" where
  "to_string_nat n =
     (if n < 10 then [''0123456789'' ! n]
      else to_string_nat (n div 10) @ [''0123456789'' ! (n mod 10)])"
  by pat_completeness auto
termination
  by (relation "measure id") auto

definition to_string :: "int \<Rightarrow> string" where
  "to_string i = (if i < 0 then CHR ''-'' # to_string_nat (nat (- i)) else to_string_nat (nat i))"

subsection \<open>Messages\<close>

text \<open>What \<^verbatim>\<open>Session::answer\<close> reads of an incoming \<^verbatim>\<open>TgBot::Message\<close>.\<close>

record tg_message =
  msg_text :: string
  from_id :: "64 word"
  firstName :: string
  lastName :: string
  from_username :: string
  messageId :: int

text \<open>What the session sends through the bot API: \<^verbatim>\<open>sendMessage\<close> (chat, text, id of the
  message replied to, parse mode) and \<^verbatim>\<open>sendPhoto\<close> (chat, URL, caption, id replied to).\<close>

datatype sent =
    SendMessage "64 word" string int string
  | SendPhoto "64 word" string string int

subsection \<open>The session object\<close>

text \<open>The members of \<^verbatim>\<open>class Session\<close> that \<^verbatim>\<open>Session.cpp\<close> uses.  \<^verbatim>\<open>scores\<close> lists
  the entries of the container \<^verbatim>\<open>scores_\<close> in the order of their insertion, one per key.\<close>

record Session =
  chat_id :: "64 word"
  deck :: Deck
  current_card :: "Card option"
  scores :: "(64 word \<times> Score) list"
  timeout :: "32 word"
  next_delay :: "32 word"
  should_stop :: bool
  last_msg_id :: int
  ref_count :: int

subsection \<open>JSON values\<close>

text \<open>The values of \<^verbatim>\<open>nlohmann::json\<close>.  \<^verbatim>\<open>JInteger\<close> stands for both integer kinds of the
  library (\<^verbatim>\<open>is_number_integer\<close> accepts both); an object is its list of members.\<close>

datatype json =
    JNull
  | JBool bool
  | JInteger int
  | JFloat
  | JString string
  | JArray "json list"
  | JObject "(string \<times> json) list"

text \<open>\<^verbatim>\<open>j.find(k) != j.end() && j[k].is_number_integer()\<close>, then \<^verbatim>\<open>j[k].get<...>()\<close>; the
  same for strings and arrays.  \<^verbatim>\<open>None\<close> is the case in which the source skips.\<close>

definition find_key :: "string \<Rightarrow> json \<Rightarrow> json option" where
  "find_key k j = (case j of JObject kv \<Rightarrow> map_of kv k | _ \<Rightarrow> None)"

definition field_integer :: "string \<Rightarrow> json \<Rightarrow> int option" where
  "field_integer k j = (case find_key k j of Some (JInteger i) \<Rightarrow> Some i | _ \<Rightarrow> None)"

definition field_string :: "string \<Rightarrow> json \<Rightarrow> string option" where
  "field_string k j = (case find_key k j of Some (JString s) \<Rightarrow> Some s | _ \<Rightarrow> None)"

definition field_array :: "string \<Rightarrow> json \<Rightarrow> json list option" where
  "field_array k j = (case find_key k j of Some (JArray xs) \<Rightarrow> Some xs | _ \<Rightarrow> None)"

subsection \<open>What the engine takes from outside\<close>

text \<open>
  Code and declarations the engine calls and that are not part of \<^verbatim>\<open>Session.cpp\<close>:
  \<^item> \<^verbatim>\<open>Deck::createDeck\<close>; \<^verbatim>\<open>None\<close> when it throws a \<^verbatim>\<open>std::exception\<close>;
  \<^item> \<^verbatim>\<open>Deck::shuffle\<close>, the order it gives to the cards;
  \<^item> the order in which the container \<^verbatim>\<open>scores_\<close> (declared in \<^verbatim>\<open>Session.hpp\<close>) enumerates
    its entries from \<^verbatim>\<open>begin()\<close> to \<^verbatim>\<open>end()\<close>, given the entries in insertion order;
  \<^item> \<^verbatim>\<open>json::dump\<close> and \<^verbatim>\<open>json::parse\<close>; \<^verbatim>\<open>None\<close> for a \<^verbatim>\<open>parse_error\<close>;
  \<^item> the initial values of \<^verbatim>\<open>timeout_\<close> and \<^verbatim>\<open>next_delay_\<close> (in \<^verbatim>\<open>Session.hpp\<close>);
  \<^item> whether \<^verbatim>\<open>std::thread\<close> can start the worker of a chat; \<^verbatim>\<open>Some what\<close> is the
    exception's text when it cannot;
  \<^item> the size of the buffer the C library gives to a stream it opens with \<^verbatim>\<open>fopen\<close>.
\<close>

record extern =
  createDeck :: "string \<Rightarrow> Deck option"
  deck_shuffle :: "Card list \<Rightarrow> Card list"
  scores_order :: "(64 word \<times> Score) list \<Rightarrow> (64 word \<times> Score) list"
  json_dump :: "json \<Rightarrow> string"
  json_parse :: "string \<Rightarrow> json option"
  default_timeout :: "32 word"
  default_next_delay :: "32 word"
  thread_error :: "64 word \<Rightarrow> string option"
  stdio_buffer :: nat

subsection \<open>The process state\<close>

text \<open>\<^verbatim>\<open>g_sessions\<close> maps a chat id to a \<^verbatim>\<open>Session *\<close>; the heap holds the session objects
  that are alive (\<^verbatim>\<open>new\<close> takes the next address, \<^verbatim>\<open>delete\<close> empties it); \<^verbatim>\<open>files\<close> is the
  content of the files by path; \<^verbatim>\<open>outbox\<close> is what was sent through the bot API, oldest
  first; \<^verbatim>\<open>workers\<close> lists the sessions whose worker thread was started; \<^verbatim>\<open>waits\<close>
  records every \<^verbatim>\<open>cond_.wait_for\<close> a worker enters, oldest first: the wait for the answer to
  a question with the seconds of \<^verbatim>\<open>timeout_\<close>, or the pause between two cards with the
  seconds of \<^verbatim>\<open>next_delay_\<close>.\<close>

type_synonym addr = nat

datatype wait = AwaitAnswer string "32 word" | Delay "32 word"

record world =
  g_sessions :: "64 word \<Rightarrow> addr option"
  heap :: "addr \<Rightarrow> Session option"
  next_addr :: addr
  files :: "string \<Rightarrow> string option"
  outbox :: "sent list"
  workers :: "addr list"
  waits :: "wait list"

definition store :: "addr \<Rightarrow> Session \<Rightarrow> world \<Rightarrow> world" where
  "store p s w = w\<lparr>heap := (heap w)(p \<mapsto> s)\<rparr>"

definition send :: "sent list \<Rightarrow> world \<Rightarrow> world" where
  "send ms w = w\<lparr>outbox := outbox w @ ms\<rparr>"

subsection \<open>The registry\<close>

text \<open>\<^verbatim>\<open>Session::Session\<close>: the reference count starts at 0 and the deck is created by name.
  Modelled from the spec: the in-class initialisers of the other members are in
  \<^verbatim>\<open>Session.hpp\<close>, which is not among the sources: no current card, no stop requested, no
  message sent yet.\<close>

definition new_Session :: "extern \<Rightarrow> 64 word \<Rightarrow> Deck \<Rightarrow> Session" where
  "new_Session E c d =
     \<lparr>chat_id = c, deck = d, current_card = None, scores = [],
      timeout = default_timeout E, next_delay = default_next_delay E,
      should_stop = False, last_msg_id = 0, ref_count = 0\<rparr>"

text \<open>\<^verbatim>\<open>Session::getSession\<close>.\<close>

definition getSession :: "64 word \<Rightarrow> world \<Rightarrow> addr option \<times> world" where
  "getSession c w =
     (case g_sessions w c of
        None \<Rightarrow> (None, w)
      | Some p \<Rightarrow>
          (Some p, w\<lparr>heap := (heap w)(p := map_option (\<lambda>s. s\<lparr>ref_count := ref_count s + 1\<rparr>)
                                               (heap w p))\<rparr>))"

text \<open>\<^verbatim>\<open>Session::putSession\<close>: \<^verbatim>\<open>if (sess->ref_count_-- == 1) delete sess;\<close>.\<close>

definition putSession :: "addr \<Rightarrow> world \<Rightarrow> world" where
  "putSession p w =
     (case heap w p of
        None \<Rightarrow> w
      | Some s \<Rightarrow>
          if ref_count s = 1 then w\<lparr>heap := (heap w)(p := None)\<rparr>
          else store p (s\<lparr>ref_count := ref_count s - 1\<rparr>) w)"

text \<open>\<^verbatim>\<open>Session::createSession\<close>: no session when the chat id is already in the map, and no
  session when the constructor throws (the \<^verbatim>\<open>catch\<close> branch).\<close>

definition createSession :: "extern \<Rightarrow> 64 word \<Rightarrow> string \<Rightarrow> world \<Rightarrow> addr option \<times> world" where
  "createSession E c dn w =
     (case g_sessions w c of
        Some q \<Rightarrow> (None, w)
      | None \<Rightarrow>
          (case createDeck E dn of
             None \<Rightarrow> (None, w)
           | Some d \<Rightarrow>
               let p = next_addr w;
                   sess = new_Session E c d
               in (Some p,
                   w\<lparr>g_sessions := (g_sessions w)(c \<mapsto> p),
                     heap := (heap w)(p \<mapsto> sess\<lparr>ref_count := ref_count sess + 1\<rparr>),
                     next_addr := p + 1\<rparr>)))"

text \<open>\<^verbatim>\<open>Session::deleteSession\<close>.\<close>

definition deleteSession :: "64 word \<Rightarrow> world \<Rightarrow> world" where
  "deleteSession c w =
     (case g_sessions w c of
        None \<Rightarrow> w
      | Some p \<Rightarrow> w\<lparr>g_sessions := (g_sessions w)(c := None)\<rparr>)"

subsection \<open>Answers and settings\<close>

text \<open>\<^verbatim>\<open>scores_.emplace\<close>: a key that is present keeps its entry.  \<^verbatim>\<open>s->point_++\<close> on the
  entry found for a key.\<close>

definition emplace :: "64 word \<Rightarrow> Score \<Rightarrow> (64 word \<times> Score) list \<Rightarrow> (64 word \<times> Score) list" where
  "emplace k v xs = (if map_of xs k = None then xs @ [(k, v)] else xs)"

definition point_inc :: "64 word \<Rightarrow> (64 word \<times> Score) list \<Rightarrow> (64 word \<times> Score) list" where
  "point_inc k xs = map (\<lambda>(k', sc). if k' = k then (k', sc\<lparr>point := point sc + 1\<rparr>) else (k', sc)) xs"

text \<open>\<^verbatim>\<open>Session::answer\<close>: the new session and the reply sent, if any.\<close>

definition answer :: "tg_message \<Rightarrow> Session \<Rightarrow> Session \<times> sent list" where
  "answer msg s =
     (case current_card s of
        None \<Rightarrow> (s, [])
      | Some c \<Rightarrow>
          if \<not> answer_ok c (msg_text msg) then (s, [])
          else
            let sc' = (case map_of (scores s) (from_id msg) of
                         None \<Rightarrow>
                           emplace (from_id msg)
                             \<lparr>point = 1,
                              full_name = firstName msg @
                                (if length (lastName msg) \<noteq> 0 then '' '' @ lastName msg else []),
                              username = from_username msg\<rparr>
                             (scores s)
                       | Some old \<Rightarrow> point_inc (from_id msg) (scores s));
                p = (case map_of sc' (from_id msg) of None \<Rightarrow> 0 | Some e \<Rightarrow> point e);
                reply = ''Correct!\<newline>Your point is: '' @ to_string (uint p) @ ''\<newline>\<newline>'' @
                        getAnswerInfo c
            in (s\<lparr>scores := sc', current_card := None\<rparr>,
                [SendMessage (chat_id s) reply (messageId msg) []]))"

text \<open>\<^verbatim>\<open>Session::stop\<close>, \<^verbatim>\<open>Session::setTimeout\<close>, \<^verbatim>\<open>Session::setNextDelay\<close>: the change of the
  members.  Their \<^verbatim>\<open>cond_.notify_one()\<close> is \<^verbatim>\<open>notifies\<close> below.\<close>

definition stop :: "Session \<Rightarrow> Session" where
  "stop s = s\<lparr>should_stop := True\<rparr>"

definition setTimeout :: "32 word \<Rightarrow> bool \<Rightarrow> Session \<Rightarrow> Session" where
  "setTimeout t skip s = s\<lparr>timeout := t\<rparr>"

definition setNextDelay :: "32 word \<Rightarrow> bool \<Rightarrow> Session \<Rightarrow> Session" where
  "setNextDelay d skip s = s\<lparr>next_delay := d\<rparr>"

text \<open>A call another thread makes on the session while the worker waits.\<close>

datatype call =
    Answer tg_message
  | Stop
  | SetTimeout "32 word" bool
  | SetNextDelay "32 word" bool

definition call_session :: "call \<Rightarrow> Session \<Rightarrow> Session \<times> sent list" where
  "call_session c s =
     (case c of
        Answer m \<Rightarrow> answer m s
      | Stop \<Rightarrow> (stop s, [])
      | SetTimeout t skip \<Rightarrow> (setTimeout t skip s, [])
      | SetNextDelay d skip \<Rightarrow> (setNextDelay d skip s, []))"

text \<open>Whether the call reaches its \<^verbatim>\<open>cond_.notify_one()\<close>, on the session it finds.\<close>

definition notifies :: "call \<Rightarrow> Session \<Rightarrow> bool" where
  "notifies c s =
     (case c of
        Answer m \<Rightarrow> (case current_card s of None \<Rightarrow> False | Some cd \<Rightarrow> answer_ok cd (msg_text m))
      | Stop \<Rightarrow> True
      | SetTimeout t skip \<Rightarrow> skip
      | SetNextDelay d skip \<Rightarrow> skip)"

text \<open>The calls made on the session at \<^verbatim>\<open>p\<close>, in order: whether one of them notified, and
  the state they leave.\<close>

fun run_calls :: "addr \<Rightarrow> call list \<Rightarrow> world \<Rightarrow> bool \<times> world" where
  "run_calls p [] w = (False, w)"
| "run_calls p (c # cs) w =
     (case heap w p of
        None \<Rightarrow> (False, w)
      | Some s \<Rightarrow>
          (case call_session c s of
             (s', ms) \<Rightarrow>
               (case run_calls p cs (send ms (store p s' w)) of
                  (n, w') \<Rightarrow> (notifies c s \<or> n, w'))))"

subsection \<open>The finish summary\<close>

text \<open>The comparison of \<^verbatim>\<open>sendFinishMessage\<close>: \<^verbatim>\<open>a.second.point_ > b.second.point_\<close>.\<close>

definition by_point :: "64 word \<times> Score \<Rightarrow> 64 word \<times> Score \<Rightarrow> bool" where
  "by_point a b = (point (snd a) > point (snd b))"

text \<open>\<^verbatim>\<open>std::sort\<close>.  The C++ standard leaves the order of equivalent elements open; the model
  is the insertion sort that the GNU library runs on a range of at most 16 elements: each
  element in turn moves left past the elements it compares before.  \<^verbatim>\<open>linear_insert\<close> works
  on the sorted prefix read from its right end.  On a longer range the library sorts by
  another method and may leave entries with equal points in another order than this
  function; the result is sorted and holds the same entries in both.  Nothing below is
  stated about the order of equal points on a range of more than 16 elements.\<close>

fun linear_insert :: "('a \<Rightarrow> 'a \<Rightarrow> bool) \<Rightarrow> 'a \<Rightarrow> 'a list \<Rightarrow> 'a list" where
  "linear_insert cmp val [] = [val]"
| "linear_insert cmp val (nxt # rest) =
     (if cmp val nxt then nxt # linear_insert cmp val rest else val # nxt # rest)"

fun insertion_sort_loop :: "('a \<Rightarrow> 'a \<Rightarrow> bool) \<Rightarrow> 'a list \<Rightarrow> 'a list \<Rightarrow> 'a list" where
  "insertion_sort_loop cmp pre [] = rev pre"
| "insertion_sort_loop cmp pre (x # xs) = insertion_sort_loop cmp (linear_insert cmp x pre) xs"

definition std_sort :: "('a \<Rightarrow> 'a \<Rightarrow> bool) \<Rightarrow> 'a list \<Rightarrow> 'a list" where
  "std_sort cmp xs = insertion_sort_loop cmp [] xs"

text \<open>\<^verbatim>\<open>scores_vec\<close> after the sort: the ranking of the summary.\<close>

definition scores_vec :: "extern \<Rightarrow> Session \<Rightarrow> (64 word \<times> Score) list" where
  "scores_vec E s = std_sort by_point (scores_order E (scores s))"

definition name_link :: "64 word \<times> Score \<Rightarrow> string" where
  "name_link s =
     ''<a href='' @ [CHR 0x22] @ ''tg://user?id='' @ to_string (sint (fst s)) @ [CHR 0x22] @ ''>'' @
     htmlspecialchars (full_name (snd s)) @ ''</a>''"

text \<open>The loop over \<^verbatim>\<open>scores_vec\<close> that appends one line per participant to \<^verbatim>\<open>score\<close>;
  \<^verbatim>\<open>i\<close> is the \<^verbatim>\<open>uint32_t\<close> rank counter.\<close>

fun finish_loop :: "string \<Rightarrow> 32 word \<Rightarrow> (64 word \<times> Score) list \<Rightarrow> string" where
  "finish_loop score i [] = score"
| "finish_loop score i (s # rest) =
     finish_loop
       (score @ to_string (uint i) @ ''. '' @ name_link s @ '': '' @
        to_string (uint (point (snd s))) @ '' point'' @
        (if point (snd s) > 1 then ''s'' else []) @ ''\<newline>'')
       (i + 1) rest"

text \<open>\<^verbatim>\<open>Session::sendFailMessage\<close> reads \<^verbatim>\<open>current_card_\<close> without a test: no message and
  \<^verbatim>\<open>None\<close> when the pointer is null.\<close>

definition sendFailMessage :: "string \<Rightarrow> Session \<Rightarrow> sent option" where
  "sendFailMessage msg s =
     (case current_card s of
        None \<Rightarrow> None
      | Some c \<Rightarrow>
          Some (SendMessage (chat_id s) (msg @ ''\<newline>\<newline>'' @ getAnswerInfo c) (last_msg_id s) []))"

text \<open>\<^verbatim>\<open>Session::sendFinishMessage\<close>: the messages it sends.\<close>

definition sendFinishMessage :: "extern \<Rightarrow> Session \<Rightarrow> sent list" where
  "sendFinishMessage E s =
     (case sendFailMessage ''Game is stopped!'' s of None \<Rightarrow> [] | Some m \<Rightarrow> [m]) @
     [SendMessage (chat_id s)
        (finish_loop ''Session finished!\<newline>\<newline>'' 1 (scores_vec E s)) 0 ''HTML'']"

text \<open>\<^verbatim>\<open>Session::sendCard\<close> for the card \<^verbatim>\<open>current_card_\<close> points to.  \<^verbatim>\<open>url\<close> is what
  \<^verbatim>\<open>generate_text_image\<close> returns and \<^verbatim>\<open>photo\<close> the id of the message \<^verbatim>\<open>sendPhoto\<close>
  returns; \<^verbatim>\<open>None\<close> is the failure of either.\<close>

definition sendCard :: "string option \<Rightarrow> int option \<Rightarrow> Card \<Rightarrow> Session \<Rightarrow> bool \<times> Session \<times> sent list" where
  "sendCard url photo c s =
     (case url of
        None \<Rightarrow>
          (False, s, [SendMessage (chat_id s) ''Failed to generate image, stopping session...'' 0 []])
      | Some u \<Rightarrow>
          (case photo of
             None \<Rightarrow>
               (False, s, [SendMessage (chat_id s) ''Failed to send image, stopping session...'' 0 []])
           | Some mid \<Rightarrow>
               (True, s\<lparr>last_msg_id := mid\<rparr>,
                [SendPhoto (chat_id s) u
                   (getQuestionInfo c @ ''\<newline>\<newline>Timeout: '' @ to_string (uint (timeout s)) @
                    '' seconds'')
                   (last_msg_id s)])))"

subsection \<open>Checkpoint and recovery\<close>

definition sessions_dir :: string where
  "sessions_dir = ''./storage/jqftu/sessions/''"

definition snapshot_name :: "64 word \<Rightarrow> string" where
  "snapshot_name key = ''s_'' @ to_string (sint key) @ ''.json''"

definition score_json :: "64 word \<times> Score \<Rightarrow> json" where
  "score_json s =
     JObject [(''user_id'', JInteger (sint (fst s))),
              (''full_name'', JString (full_name (snd s))),
              (''username'', JString (username (snd s))),
              (''point'', JInteger (uint (point (snd s))))]"

definition snapshot_json :: "extern \<Rightarrow> Session \<Rightarrow> json" where
  "snapshot_json E s =
     JObject [(''chat_id'', JInteger (sint (chat_id s))),
              (''deck_name'', JString (getName (deck s))),
              (''scores'', JArray (map score_json (scores_order E (scores s))))]"

text \<open>What the file system does at a checkpoint: \<^verbatim>\<open>fopen\<close> fails, or the file is opened
  and the file system takes so many bytes of it and no more.\<close>

datatype disk = OpenFails | Accepts nat

text \<open>The buffered stream of the C library, as the GNU library handles one write to a
  stream just opened: \<^verbatim>\<open>fwrite\<close> passes the whole blocks of the data on to the file and
  keeps the rest in the buffer of the stream, and \<^verbatim>\<open>fclose\<close> writes the buffer out.  A
  stream without a buffer has the size 0.  \<^verbatim>\<open>fwrite\<close> gives the count it returns, the bytes
  that are in the file and the bytes left in the buffer: the count is short only when the
  file system refuses a byte that \<^verbatim>\<open>fwrite\<close> itself passes on.  \<^verbatim>\<open>fclose\<close> gives the
  bytes that are in the file at the end.\<close>

definition fwrite :: "nat \<Rightarrow> nat \<Rightarrow> string \<Rightarrow> nat \<times> string \<times> string" where
  "fwrite bufsz cap str =
     (let direct = (if bufsz = 0 then length str else length str - length str mod bufsz)
      in if cap < direct then (cap, take cap str, [])
         else (length str, take direct str, drop direct str))"

definition fclose :: "nat \<Rightarrow> string \<Rightarrow> string \<Rightarrow> string" where
  "fclose cap in_file buffered = in_file @ take (cap - length in_file) buffered"

text \<open>\<^verbatim>\<open>Session::serializeSessions\<close>.  An entry of \<^verbatim>\<open>g_sessions\<close> points to a live session.
  The source compares the count of \<^verbatim>\<open>fwrite\<close> with the length of the text and does not look
  at what \<^verbatim>\<open>fclose\<close> returns.\<close>

definition serializeSessions :: "extern \<Rightarrow> disk \<Rightarrow> 64 word \<Rightarrow> world \<Rightarrow> world" where
  "serializeSessions E dk key w =
     (case g_sessions w key of
        None \<Rightarrow> w
      | Some p \<Rightarrow>
          (case heap w p of
             None \<Rightarrow> w
           | Some s \<Rightarrow>
               let json_str = json_dump E (snapshot_json E s);
                   path = sessions_dir @ snapshot_name key
               in (case dk of
                     OpenFails \<Rightarrow> w
                   | Accepts cap \<Rightarrow>
                       (case fwrite (stdio_buffer E) cap json_str of
                          (len, in_file, buffered) \<Rightarrow>
                            let w1 = w\<lparr>files := (files w)(path \<mapsto> fclose cap in_file buffered)\<rparr>
                            in if len \<noteq> length json_str
                               then w1\<lparr>files := (files w1)(path := None)\<rparr>
                               else w1))))"

text \<open>\<^verbatim>\<open>load_str_from_file\<close>: the content, or \<^verbatim>\<open>None\<close> when the file cannot be read.\<close>

definition load_str_from_file :: "world \<Rightarrow> string \<Rightarrow> string option" where
  "load_str_from_file w file_handle = files w (sessions_dir @ file_handle)"

text \<open>\<^verbatim>\<open>Session::_start\<close>: the worker thread is started and detached, or the failure is
  reported to the chat.\<close>

definition start_worker :: "extern \<Rightarrow> addr \<Rightarrow> world \<Rightarrow> world" where
  "start_worker E p w =
     (case heap w p of
        None \<Rightarrow> w
      | Some s \<Rightarrow>
          (case thread_error E (chat_id s) of
             None \<Rightarrow> w\<lparr>workers := workers w @ [p]\<rparr>
           | Some what \<Rightarrow>
               send [SendMessage (chat_id s) (''Failed to start session: '' @ what) 0 []] w))"

text \<open>The body of the loop over \<^verbatim>\<open>j["scores"]\<close> in \<^verbatim>\<open>initSessionFromJson\<close>.\<close>

definition restore_score :: "(64 word \<times> Score) list \<Rightarrow> json \<Rightarrow> (64 word \<times> Score) list" where
  "restore_score sc so =
     (case so of
        JObject kv \<Rightarrow>
          (case field_integer ''user_id'' so of None \<Rightarrow> sc | Some u \<Rightarrow>
          (case field_string ''full_name'' so of None \<Rightarrow> sc | Some f \<Rightarrow>
          (case field_string ''username'' so of None \<Rightarrow> sc | Some n \<Rightarrow>
          (case field_integer ''point'' so of None \<Rightarrow> sc | Some pt \<Rightarrow>
             emplace (word_of_int u) \<lparr>point = word_of_int pt, full_name = f, username = n\<rparr> sc))))
      | _ \<Rightarrow> sc)"

text \<open>\<^verbatim>\<open>Session::initSessionFromJson\<close>.\<close>

definition initSessionFromJson :: "extern \<Rightarrow> json \<Rightarrow> world \<Rightarrow> world" where
  "initSessionFromJson E j w =
     (case j of
        JObject kv \<Rightarrow>
          (case field_integer ''chat_id'' j of None \<Rightarrow> w | Some cid \<Rightarrow>
          (case field_string ''deck_name'' j of None \<Rightarrow> w | Some dn \<Rightarrow>
          (case field_array ''scores'' j of None \<Rightarrow> w | Some arr \<Rightarrow>
             (case createSession E (word_of_int cid) dn w of
                (None, w') \<Rightarrow> w'
              | (Some p, w') \<Rightarrow>
                  start_worker E p
                    (w'\<lparr>heap := (heap w')(p := map_option
                            (\<lambda>s. s\<lparr>scores := foldl restore_score (scores s) arr\<rparr>) (heap w' p))\<rparr>)))))
      | _ \<Rightarrow> w)"

text \<open>\<^verbatim>\<open>Session::init\<close>: one directory entry, then the loop over what \<^verbatim>\<open>readdir\<close> returns.
  \<^verbatim>\<open>dir\<close> is \<^verbatim>\<open>None\<close> when \<^verbatim>\<open>opendir\<close> fails.\<close>

definition init_entry :: "extern \<Rightarrow> string \<Rightarrow> world \<Rightarrow> world" where
  "init_entry E n w =
     (case n of
        c0 # c1 # rest \<Rightarrow>
          if c0 = CHR ''s'' \<and> c1 = CHR ''_'' then
            (case load_str_from_file w n of
               None \<Rightarrow> w
             | Some json_str \<Rightarrow>
                 (case json_parse E json_str of
                    None \<Rightarrow> w
                  | Some j \<Rightarrow> initSessionFromJson E j w))
          else w
      | _ \<Rightarrow> w)"

fun init_scan :: "extern \<Rightarrow> string list \<Rightarrow> world \<Rightarrow> world" where
  "init_scan E [] w = w"
| "init_scan E (n # names) w = init_scan E names (init_entry E n w)"

definition init :: "extern \<Rightarrow> string list option \<Rightarrow> world \<Rightarrow> world" where
  "init E dir w = (case dir of None \<Rightarrow> w | Some names \<Rightarrow> init_scan E names w)"

text \<open>A snapshot text is malformed when it does not parse or when \<^verbatim>\<open>chat_id\<close>,
  \<^verbatim>\<open>deck_name\<close> or \<^verbatim>\<open>scores\<close> is missing or of the wrong type.\<close>

definition malformed_snapshot :: "extern \<Rightarrow> string \<Rightarrow> bool" where
  "malformed_snapshot E str =
     (case json_parse E str of
        None \<Rightarrow> True
      | Some j \<Rightarrow>
          field_integer ''chat_id'' j = None \<or> field_string ''deck_name'' j = None \<or>
          field_array ''scores'' j = None)"

subsection \<open>The worker\<close>

text \<open>\<^verbatim>\<open>std::cv_status\<close>.\<close>

datatype cv_status = no_timeout | timed_out

text \<open>
  What happens around the worker during one pass of its loop:
  \<^item> what \<^verbatim>\<open>generate_text_image\<close> and \<^verbatim>\<open>sendPhoto\<close> return;
  \<^item> the calls other threads make while the worker is blocked waiting for the answer;
  \<^item> when none of them notified: whether the time ran out (otherwise the wake-up is
    spurious);
  \<^item> the calls that get the mutex after the wake-up and before the worker has it back;
  \<^item> the calls made during the pause before the next card;
  \<^item> what the file system does at the checkpoint.
\<close>

record turn =
  image_url :: "string option"
  photo_id :: "int option"
  calls_in_wait :: "call list"
  elapsed :: bool
  calls_at_wake :: "call list"
  calls_in_delay :: "call list"
  disk_state :: disk

text \<open>\<^verbatim>\<open>cond_.wait_for(lock, ...)\<close> of the worker at \<^verbatim>\<open>p\<close>: a notification wakes it with
  \<^verbatim>\<open>no_timeout\<close>; without one it returns \<^verbatim>\<open>timeout\<close> when the time ran out.\<close>

definition wait_for :: "addr \<Rightarrow> call list \<Rightarrow> bool \<Rightarrow> call list \<Rightarrow> world \<Rightarrow> cv_status \<times> world" where
  "wait_for p before el after w =
     (case run_calls p before w of
        (notified, w1) \<Rightarrow>
          (if notified then no_timeout else if el then timed_out else no_timeout,
           snd (run_calls p after w1)))"

datatype fault = UseAfterFree | NullDereference | Blocked

text \<open>After the wait for the answer:
  \<^verbatim>\<open>if (... == std::cv_status::timeout) { sendFailMessage("Time's up!"); current_card_ = nullptr; }\<close>.\<close>

definition after_answer_wait :: "cv_status \<Rightarrow> addr \<Rightarrow> world \<Rightarrow> fault + world" where
  "after_answer_wait st p w =
     (if st = timed_out then
        (case heap w p of
           None \<Rightarrow> Inl UseAfterFree
         | Some s \<Rightarrow>
             (case sendFailMessage ''Time's up!'' s of
                None \<Rightarrow> Inl NullDereference
              | Some m \<Rightarrow> Inr (send [m] (store p (s\<lparr>current_card := None\<rparr>) w))))
      else Inr w)"

text \<open>\<^verbatim>\<open>if (!deck_->isFinished() && !should_stop_) cond_.wait_for(lock, std::chrono::seconds(next_delay_));\<close>\<close>

definition delay_wait :: "addr \<Rightarrow> call list \<Rightarrow> world \<Rightarrow> world" where
  "delay_wait p cs w =
     (case heap w p of
        None \<Rightarrow> w
      | Some s \<Rightarrow>
          if \<not> isFinished (deck s) \<and> \<not> should_stop s
          then snd (run_calls p cs (w\<lparr>waits := waits w @ [Delay (next_delay s)]\<rparr>))
          else w)"

text \<open>One pass of the loop from \<^verbatim>\<open>sendCard\<close> to \<^verbatim>\<open>serializeSessions\<close>, for the card just
  drawn.  The flag is \<^verbatim>\<open>False\<close> when the pass leaves the loop (\<^verbatim>\<open>sendCard\<close> failed).\<close>

definition card_turn :: "extern \<Rightarrow> addr \<Rightarrow> turn \<Rightarrow> Card \<Rightarrow> world \<Rightarrow> fault + bool \<times> world" where
  "card_turn E p t c w =
     (case heap w p of
        None \<Rightarrow> Inl UseAfterFree
      | Some s \<Rightarrow>
          (case sendCard (image_url t) (photo_id t) c s of
             (False, s1, ms) \<Rightarrow> Inr (False, send ms (store p s1 w))
           | (True, s1, ms) \<Rightarrow>
               (case wait_for p (calls_in_wait t) (elapsed t) (calls_at_wake t)
                       ((send ms (store p s1 w))
                          \<lparr>waits := waits w @ [AwaitAnswer (getQuestion c) (timeout s1)]\<rparr>) of
                  (st, w1) \<Rightarrow>
                    (case after_answer_wait st p w1 of
                       Inl f \<Rightarrow> Inl f
                     | Inr w2 \<Rightarrow>
                         Inr (True,
                              serializeSessions E (disk_state t) (chat_id s)
                                (delay_wait p (calls_in_delay t) w2))))))"

text \<open>The \<^verbatim>\<open>while (1)\<close> of \<^verbatim>\<open>Session::worker\<close>.  \<^verbatim>\<open>Inl Blocked\<close>: a card is drawn and the list
  says nothing about its pass, the worker is still waiting.\<close>

fun worker_loop :: "extern \<Rightarrow> addr \<Rightarrow> turn list \<Rightarrow> world \<Rightarrow> fault + world" where
  "worker_loop E p ts w =
     (case heap w p of
        None \<Rightarrow> Inl UseAfterFree
      | Some s \<Rightarrow>
          if should_stop s then Inr w
          else if isFinished (deck s) then Inr w
          else
            (case draw (deck s) of
               (None, d) \<Rightarrow> Inr (store p (s\<lparr>deck := d, current_card := None\<rparr>) w)
             | (Some c, d) \<Rightarrow>
                 (case ts of
                    [] \<Rightarrow> Inl Blocked
                  | t # ts' \<Rightarrow>
                      (case card_turn E p t c (store p (s\<lparr>deck := d, current_card := Some c\<rparr>) w) of
                         Inl f \<Rightarrow> Inl f
                       | Inr (go_on, w') \<Rightarrow> if go_on then worker_loop E p ts' w' else Inr w'))))"

text \<open>The end of \<^verbatim>\<open>Session::worker\<close>: \<^verbatim>\<open>sendFinishMessage(); deleteSession(chat_id_);
  if (ref_count_-- == 1) delete this;\<close>, in two steps.\<close>

definition worker_finish :: "extern \<Rightarrow> addr \<Rightarrow> world \<Rightarrow> fault + world" where
  "worker_finish E p w =
     (case heap w p of
        None \<Rightarrow> Inl UseAfterFree
      | Some s \<Rightarrow> Inr (deleteSession (chat_id s) (send (sendFinishMessage E s) w)))"

definition worker_release :: "addr \<Rightarrow> world \<Rightarrow> fault + world" where
  "worker_release p w =
     (case heap w p of
        None \<Rightarrow> Inl UseAfterFree
      | Some s \<Rightarrow>
          Inr (if ref_count s = 1 then w\<lparr>heap := (heap w)(p := None)\<rparr>
               else store p (s\<lparr>ref_count := ref_count s - 1\<rparr>) w))"

definition worker_exit :: "extern \<Rightarrow> addr \<Rightarrow> world \<Rightarrow> fault + world" where
  "worker_exit E p w =
     (case worker_finish E p w of Inl f \<Rightarrow> Inl f | Inr w1 \<Rightarrow> worker_release p w1)"

text \<open>\<^verbatim>\<open>Session::worker\<close>.\<close>

definition worker :: "extern \<Rightarrow> addr \<Rightarrow> turn list \<Rightarrow> world \<Rightarrow> fault + world" where
  "worker E p ts w =
     (case heap w p of
        None \<Rightarrow> Inl UseAfterFree
      | Some s \<Rightarrow>
          (case worker_loop E p ts
                  (store p (s\<lparr>ref_count := ref_count s + 1,
                              deck := (deck s)\<lparr>cards := deck_shuffle E (cards (deck s))\<rparr>\<rparr>) w) of
             Inl f \<Rightarrow> Inl f
           | Inr w1 \<Rightarrow> worker_exit E p w1))"

subsection \<open>Statements of the description, as predicates\<close>

text \<open>A ranking is descending by point; and it keeps participants with equal points in the
  order of their insertion into the score board.\<close>

definition descending :: "(64 word \<times> Score) list \<Rightarrow> bool" where
  "descending r = sorted_wrt (\<lambda>a b. point (snd a) \<ge> point (snd b)) r"

definition ties_in_insertion_order ::
  "(64 word \<times> Score) list \<Rightarrow> (64 word \<times> Score) list \<Rightarrow> bool" where
  "ties_in_insertion_order ins r =
     list_all (\<lambda>e. filter (\<lambda>x. point (snd x) = point (snd e)) r =
                    filter (\<lambda>x. point (snd x) = point (snd e)) ins) ins"

definition ranking_keeps_insertion_order :: "extern \<Rightarrow> Session \<Rightarrow> bool" where
  "ranking_keeps_insertion_order E s =
     (descending (scores_vec E s) \<and> ties_in_insertion_order (scores s) (scores_vec E s))"

text \<open>\<^verbatim>\<open>createSession\<close> returns no session exactly when the chat id is mapped.\<close>

definition fails_only_on_duplicate :: "extern \<Rightarrow> 64 word \<Rightarrow> string \<Rightarrow> world \<Rightarrow> bool" where
  "fails_only_on_duplicate E c dn w =
     (fst (createSession E c dn w) = None \<longleftrightarrow> g_sessions w c \<noteq> None)"

text \<open>Several replies handled one after the other.\<close>

fun answers :: "tg_message list \<Rightarrow> Session \<Rightarrow> Session \<times> sent list" where
  "answers [] s = (s, [])"
| "answers (m # ms) s =
     (case answer m s of
        (s1, out1) \<Rightarrow> (case answers ms s1 of (s2, out2) \<Rightarrow> (s2, out1 @ out2)))"

text \<open>After the end of the worker the chat id is not registered and the snapshot file of the
  chat is gone.\<close>

definition finish_removes_snapshot :: "extern \<Rightarrow> addr \<Rightarrow> turn list \<Rightarrow> world \<Rightarrow> bool" where
  "finish_removes_snapshot E p ts w =
     (case heap w p of
        None \<Rightarrow> False
      | Some s \<Rightarrow>
          (case worker E p ts w of
             Inl f \<Rightarrow> False
           | Inr w' \<Rightarrow>
               g_sessions w' (chat_id s) = None \<and>
               files w' (sessions_dir @ snapshot_name (chat_id s)) = None))"

text \<open>After the first wait of the run, the next wait the worker enters is again the wait for
  the answer to the question \<^verbatim>\<open>q\<close>.\<close>

definition waits_again_for :: "string \<Rightarrow> extern \<Rightarrow> addr \<Rightarrow> turn list \<Rightarrow> world \<Rightarrow> bool" where
  "waits_again_for q E p ts w =
     (case worker_loop E p ts w of
        Inl f \<Rightarrow> False
      | Inr w' \<Rightarrow>
          (case drop (Suc (length (waits w))) (waits w') of
             AwaitAnswer q' tv # rest \<Rightarrow> q' = q
           | _ \<Rightarrow> False))"

text \<open>The worker of the restored session goes on where the saved session stood: the first
  question it asks is the first card the saved session had not drawn, and it is not the
  question that was in flight when the snapshot was written.\<close>

definition restore_resumes_deck :: "extern \<Rightarrow> Session \<Rightarrow> turn list \<Rightarrow> world \<Rightarrow> bool" where
  "restore_resumes_deck E s ts w0 =
     (let w1 = init E (Some [snapshot_name (chat_id s)]) w0
      in case g_sessions w1 (chat_id s) of
           None \<Rightarrow> False
         | Some p \<Rightarrow>
             (case worker E p ts w1 of
                Inl f \<Rightarrow> False
              | Inr w2 \<Rightarrow>
                  (case drop (length (waits w1)) (waits w2) of
                     AwaitAnswer q tv # rest \<Rightarrow>
                       map_option getQuestion (current_card s) \<noteq> Some q \<and>
                       (case cards (deck s) of [] \<Rightarrow> False | c # cs \<Rightarrow> q = getQuestion c)
                   | _ \<Rightarrow> False)))"

subsection \<open>Sample inputs\<close>

definition card_a :: Card where
  "card_a = \<lparr>getQuestion = ''q1'', getQuestionInfo = ''info1'', getAnswerInfo = ''answer1'',
             answer_ok = (\<lambda>a. a = ''a1'')\<rparr>"

definition card_b :: Card where
  "card_b = \<lparr>getQuestion = ''q2'', getQuestionInfo = ''info2'', getAnswerInfo = ''answer2'',
             answer_ok = (\<lambda>a. a = ''a2'')\<rparr>"

definition sample_deck :: Deck where
  "sample_deck = \<lparr>deck_name = ''tozai_line'', cards = [card_a, card_b]\<rparr>"

text \<open>Two orders in which a container may enumerate the score board: by ascending key, as
  a \<^verbatim>\<open>std::map<int64_t, Score>\<close> does, and newest first, as the GNU \<^verbatim>\<open>std::unordered_map\<close>
  does for a few keys that fall into different buckets.\<close>

definition key_order :: "(64 word \<times> Score) list \<Rightarrow> (64 word \<times> Score) list" where
  "key_order xs = std_sort (\<lambda>a b. fst a <s fst b) xs"

definition newest_first :: "(64 word \<times> Score) list \<Rightarrow> (64 word \<times> Score) list" where
  "newest_first xs = rev xs"

text \<open>Points 3, 1, 3 inserted in this order.\<close>

definition sample_scores :: "(64 word \<times> Score) list" where
  "sample_scores =
     [(5, \<lparr>point = 3, full_name = ''Ann'', username = ''ann''\<rparr>),
      (1, \<lparr>point = 1, full_name = ''Bob'', username = ''bob''\<rparr>),
      (3, \<lparr>point = 3, full_name = ''Cy'', username = ''cy''\<rparr>)]"

definition sample_snapshot :: json where
  "sample_snapshot =
     JObject [(''chat_id'', JInteger 7), (''deck_name'', JString ''tozai_line''),
       (''scores'', JArray
          [JObject [(''user_id'', JInteger 1), (''full_name'', JString ''Bob''),
                    (''username'', JString ''bob''), (''point'', JInteger 1)],
           JObject [(''user_id'', JInteger 3), (''full_name'', JString ''Cy''),
                    (''username'', JString ''cy''), (''point'', JInteger 3)],
           JObject [(''user_id'', JInteger 5), (''full_name'', JString ''Ann''),
                    (''username'', JString ''ann''), (''point'', JInteger 3)]])]"

text \<open>A small environment: one deck name is known; the JSON texts are stand-ins, one for the
  sample snapshot and one for a value without the \<^verbatim>\<open>scores\<close> member.\<close>

definition sample_extern :: extern where
  "sample_extern =
     \<lparr>createDeck = (\<lambda>n. if n = ''tozai_line'' then Some sample_deck else None),
      deck_shuffle = (\<lambda>cs. cs),
      scores_order = key_order,
      json_dump = (\<lambda>j. if j = sample_snapshot then ''<snapshot of chat 7>'' else ''<other>''),
      json_parse = (\<lambda>t. if t = ''<snapshot of chat 7>'' then Some sample_snapshot
                         else if t = ''<no scores>''
                         then Some (JObject [(''chat_id'', JInteger 9),
                                             (''deck_name'', JString ''tozai_line'')])
                         else None),
      default_timeout = 30,
      default_next_delay = 5,
      thread_error = (\<lambda>c. None),
      stdio_buffer = 4096\<rparr>"

definition empty_world :: world where
  "empty_world =
     \<lparr>g_sessions = (\<lambda>c. None), heap = (\<lambda>p. None), next_addr = 0, files = (\<lambda>f. None),
      outbox = [], workers = [], waits = []\<rparr>"

definition sample_session :: Session where
  "sample_session =
     \<lparr>chat_id = 7, deck = sample_deck, current_card = None, scores = sample_scores,
      timeout = 30, next_delay = 5, should_stop = False, last_msg_id = 0, ref_count = 1\<rparr>"

definition sample_world :: world where
  "sample_world =
     empty_world\<lparr>g_sessions := (\<lambda>c. if c = 7 then Some 0 else None),
                 heap := (\<lambda>p. if p = 0 then Some sample_session else None),
                 next_addr := 1\<rparr>"

text \<open>A pass in which \<^verbatim>\<open>setTimeout(60, true)\<close> is called during the wait for the answer, and
  a pass in which the time runs out.\<close>

definition turn_skip :: turn where
  "turn_skip =
     \<lparr>image_url = Some ''url1'', photo_id = Some 11, calls_in_wait = [SetTimeout 60 True],
      elapsed = False, calls_at_wake = [], calls_in_delay = [], disk_state = Accepts 1000\<rparr>"

definition turn_timeout :: turn where
  "turn_timeout =
     \<lparr>image_url = Some ''url2'', photo_id = Some 12, calls_in_wait = [],
      elapsed = True, calls_at_wake = [], calls_in_delay = [], disk_state = Accepts 1000\<rparr>"

text \<open>The sample session when its first question is in flight, and two replies with the
  right answer to it: from participant 5, who is on the score board, and from participant
  8, who is not.\<close>

definition asked_session :: Session where
  "asked_session = sample_session\<lparr>deck := sample_deck\<lparr>cards := [card_b]\<rparr>, current_card := Some card_a\<rparr>"

definition asked_world :: world where
  "asked_world = store 0 asked_session sample_world"

definition reply_ann :: tg_message where
  "reply_ann = \<lparr>msg_text = ''a1'', from_id = 5, firstName = ''Ann'', lastName = [],
                from_username = ''ann'', messageId = 40\<rparr>"

definition reply_dan :: tg_message where
  "reply_dan = \<lparr>msg_text = ''a1'', from_id = 8, firstName = ''Dan'', lastName = ''D'',
                from_username = ''dan'', messageId = 41\<rparr>"

text \<open>A sessions directory with two malformed entries and the snapshot of chat 7; and the
  state of a new process that finds the files left by a checkpoint of the sample session
  taken while its first question is in flight.\<close>

definition disk_world :: world where
  "disk_world =
     empty_world\<lparr>files :=
       (\<lambda>f. if f = sessions_dir @ ''s_junk'' then Some ''{''
            else if f = sessions_dir @ ''s_bad'' then Some ''<no scores>''
            else if f = sessions_dir @ ''s_7.json'' then Some ''<snapshot of chat 7>''
            else None)\<rparr>"

definition restart_world :: world where
  "restart_world =
     empty_world\<lparr>files := files (serializeSessions sample_extern (Accepts 1000) 7 asked_world)\<rparr>"

declare to_string_nat.simps [simp del]
declare worker_loop.simps [simp del]

subsection \<open>Escaping: proofs\<close>

lemma htmlspecialchars_loop_acc:
  "htmlspecialchars_loop ret str = ret @ concat (map html_entity str)"
  by (induction str arbitrary: ret) (simp_all add: html_entity_def)

lemma html_safe_entity:
  "html_safe s \<Longrightarrow> html_safe (html_entity c @ s)"
  by (simp add: html_entity_def entity_tails_def)

lemma html_safe_concat_entities: "html_safe (concat (map html_entity str))"
  by (induction str) (simp_all add: html_safe_entity)

text \<open>
  C10.  For every input string, \<^verbatim>\<open>htmlspecialchars\<close> replaces each \<^verbatim>\<open>&\<close>, \<^verbatim>\<open><\<close>,
  \<^verbatim>\<open>>\<close>, double quote and single quote by its entity and leaves every other character as
  it is; hence the escaped display name has no unescaped HTML metacharacter: none of
  \<^verbatim>\<open>< > " '\<close> occurs in it and every \<^verbatim>\<open>&\<close> in it starts an entity.
\<close>

theorem htmlspecialchars_escapes:
  "htmlspecialchars str = htmlspecialchars_spec str \<and> html_safe (htmlspecialchars str)"
  by (simp add: htmlspecialchars_def htmlspecialchars_spec_def htmlspecialchars_loop_acc
      html_safe_concat_entities)

theorem htmlspecialchars_escapes_witness:
  "htmlspecialchars ''<b>A&B</b>'' = ''&lt;b&gt;A&amp;B&lt;/b&gt;''
   \<and> html_safe (htmlspecialchars ''<b>A&B</b>'')"
  using htmlspecialchars_escapes [of "''<b>A&B</b>''"]
  by (simp add: htmlspecialchars_spec_def html_entity_def entity_tails_def)

subsection \<open>The ranking of the finish summary\<close>

lemma mset_linear_insert: "mset (linear_insert cmp v rp) = add_mset v (mset rp)"
  by (induction rp) auto

lemma set_linear_insert: "set (linear_insert cmp v rp) = insert v (set rp)"
  by (induction rp) auto

lemma sorted_linear_insert:
  "sorted_wrt (\<lambda>a b. point (snd a) \<le> point (snd b)) rp \<Longrightarrow>
   sorted_wrt (\<lambda>a b. point (snd a) \<le> point (snd b)) (linear_insert by_point v rp)"
  by (induction rp) (auto simp: set_linear_insert by_point_def)

lemma mset_insertion_sort_loop:
  "mset (insertion_sort_loop cmp pre xs) = mset pre + mset xs"
  by (induction xs arbitrary: pre) (auto simp: mset_linear_insert)

lemma mset_std_sort: "mset (std_sort cmp xs) = mset xs"
  by (simp add: std_sort_def mset_insertion_sort_loop)

lemma sorted_insertion_sort_loop:
  "sorted_wrt (\<lambda>a b. point (snd a) \<le> point (snd b)) pre \<Longrightarrow>
   sorted_wrt (\<lambda>a b. point (snd a) \<ge> point (snd b)) (insertion_sort_loop by_point pre xs)"
proof (induction xs arbitrary: pre)
  case Nil
  then show ?case by (simp add: sorted_wrt_rev)
next
  case (Cons x xs)
  then show ?case by (simp add: sorted_linear_insert)
qed

lemma three_element_orders:
  assumes "mset xs = mset [a, b, c]"
  shows "xs = [a, b, c] \<or> xs = [a, c, b] \<or> xs = [b, a, c] \<or> xs = [b, c, a] \<or>
         xs = [c, a, b] \<or> xs = [c, b, a]"
proof -
  have "length xs = 3"
    using assms by (metis length_Cons list.size(3) numeral_3_eq_3 size_mset)
  then obtain x y z where xs: "xs = [x, y, z]"
    by (auto simp: numeral_3_eq_3 length_Suc_conv)
  show ?thesis
    using assms unfolding xs by (auto simp: add_eq_conv_ex)
qed

lemma std_sort_3_1_3:
  assumes "point (snd a) = 3" "point (snd b) = 1" "point (snd c) = 3"
  shows "std_sort by_point [a, b, c] = [a, c, b]" "std_sort by_point [a, c, b] = [a, c, b]"
    "std_sort by_point [b, a, c] = [a, c, b]" "std_sort by_point [b, c, a] = [c, a, b]"
    "std_sort by_point [c, a, b] = [c, a, b]" "std_sort by_point [c, b, a] = [c, a, b]"
  using assms by (simp_all add: std_sort_def by_point_def)

text \<open>
  C1, as amended.  Whatever the order in which the container enumerates the score board (each
  entry once), the ranking of the finish summary holds the same entries and is sorted in
  descending order by point.  For points 3, 1, 3 inserted in this order, the first and the
  third participant are adjacent at the head of the ranking, in either order, and the second
  participant comes last.  The order of participants with equal points is not the order of
  insertion in general: it is the one the container and the sort leave.
\<close>

theorem ranking_descending:
  assumes "mset (scores_order E (scores s)) = mset (scores s)"
  shows "descending (scores_vec E s) \<and> mset (scores_vec E s) = mset (scores s) \<and>
         (\<forall>a b c. scores s = [a, b, c] \<and>
                  point (snd a) = 3 \<and> point (snd b) = 1 \<and> point (snd c) = 3
            \<longrightarrow> scores_vec E s = [a, c, b] \<or> scores_vec E s = [c, a, b])"
proof (intro conjI allI impI)
  show "descending (scores_vec E s)"
    by (simp add: descending_def scores_vec_def std_sort_def sorted_insertion_sort_loop)
  show "mset (scores_vec E s) = mset (scores s)"
    by (simp add: scores_vec_def mset_std_sort assms)
next
  fix a b c
  assume h: "scores s = [a, b, c] \<and> point (snd a) = 3 \<and> point (snd b) = 1 \<and> point (snd c) = 3"
  then have "mset (scores_order E (scores s)) = mset [a, b, c]"
    using assms by simp
  from three_element_orders [OF this] h std_sort_3_1_3 [of a b c]
  show "scores_vec E s = [a, c, b] \<or> scores_vec E s = [c, a, b]"
    unfolding scores_vec_def by auto
qed

theorem ranking_descending_witness:
  "mset (scores_order sample_extern (scores sample_session)) = mset (scores sample_session) \<and>
   descending (scores_vec sample_extern sample_session) \<and>
   map fst (scores_vec sample_extern sample_session) = [3, 5, 1]"
proof -
  have h: "mset (scores_order sample_extern (scores sample_session)) = mset (scores sample_session)"
    by (simp add: sample_extern_def key_order_def mset_std_sort)
  have "map fst (scores_vec sample_extern sample_session) = [3, 5, 1]"
    by (simp add: scores_vec_def sample_extern_def sample_session_def sample_scores_def
        key_order_def std_sort_def by_point_def word_sless_alt)
  with h ranking_descending [OF h] show ?thesis by simp
qed

text \<open>
  C1 as stated fails.  Participants 5, 1 and 3 are inserted in this order with points 3, 1
  and 3.  A container that enumerates by ascending key, and one that enumerates the newest
  entry first, both give the ranking 3, 5, 1: participant 3 stands before participant 5,
  who was inserted first.
\<close>

theorem ranking_ties_counterexample:
  "\<not> ranking_keeps_insertion_order sample_extern sample_session \<and>
   \<not> ranking_keeps_insertion_order (sample_extern\<lparr>scores_order := newest_first\<rparr>) sample_session"
  by (simp add: ranking_keeps_insertion_order_def ties_in_insertion_order_def scores_vec_def
      sample_extern_def sample_session_def sample_scores_def key_order_def newest_first_def
      std_sort_def by_point_def descending_def word_sless_alt)

subsection \<open>The registry\<close>

text \<open>
  C2, as amended.  \<^verbatim>\<open>createSession\<close> returns no session if and only if the chat id is
  already mapped or the construction of the session throws (the deck cannot be created); it
  then leaves the state as it is.  Otherwise it returns a new session object, which it has
  inserted into the map under the chat id, with the reference count 1.
\<close>

theorem createSession_result:
  "(fst (createSession E c dn w) = None \<longleftrightarrow> g_sessions w c \<noteq> None \<or> createDeck E dn = None) \<and>
   (fst (createSession E c dn w) = None \<longrightarrow> snd (createSession E c dn w) = w) \<and>
   (\<forall>d. g_sessions w c = None \<and> createDeck E dn = Some d \<longrightarrow>
      fst (createSession E c dn w) = Some (next_addr w) \<and>
      g_sessions (snd (createSession E c dn w)) = (g_sessions w)(c \<mapsto> next_addr w) \<and>
      heap (snd (createSession E c dn w)) =
        (heap w)(next_addr w \<mapsto> (new_Session E c d)\<lparr>ref_count := 1\<rparr>))"
  by (auto simp: createSession_def new_Session_def Let_def split: option.splits)

theorem createSession_result_witness:
  "g_sessions empty_world 7 = None \<and> createDeck sample_extern ''tozai_line'' = Some sample_deck \<and>
   fst (createSession sample_extern 7 ''tozai_line'' empty_world) = Some 0 \<and>
   g_sessions (snd (createSession sample_extern 7 ''tozai_line'' empty_world)) 7 = Some 0 \<and>
   map_option ref_count (heap (snd (createSession sample_extern 7 ''tozai_line'' empty_world)) 0)
     = Some 1"
  using createSession_result [of sample_extern 7 "''tozai_line''" empty_world]
  by (simp add: sample_extern_def empty_world_def)

text \<open>
  C2 as stated fails: no session is mapped for chat 7, and \<^verbatim>\<open>createSession\<close> still returns no
  session, because the deck name is unknown and the constructor throws.
\<close>

theorem createSession_counterexample:
  "\<not> fails_only_on_duplicate sample_extern 7 ''no_such_deck'' empty_world"
  by (simp add: fails_only_on_duplicate_def createSession_def sample_extern_def empty_world_def)

text \<open>
  C9.  \<^verbatim>\<open>deleteSession\<close> erases the entry of the map and nothing else: the heap, and with it
  every reference count and every live session, is as before.  At the end of its loop the
  worker of a live session removes the entry first: in the state between the removal and
  the release of the worker's reference the session is still alive with its count
  unchanged, the chat id is not mapped, and \<^verbatim>\<open>getSession\<close> returns no session.
\<close>

theorem deleteSession_erases_entry_only:
  "heap (deleteSession c w) = heap w \<and>
   g_sessions (deleteSession c w) = (g_sessions w)(c := None) \<and>
   getSession c (deleteSession c w) = (None, deleteSession c w) \<and>
   (\<forall>s. heap w p = Some s \<longrightarrow>
      (\<exists>w1. worker_finish E p w = Inr w1 \<and> heap w1 = heap w \<and> g_sessions w1 (chat_id s) = None \<and>
            getSession (chat_id s) w1 = (None, w1) \<and>
            worker_exit E p w = worker_release p w1))"
  by (auto simp: deleteSession_def getSession_def worker_finish_def worker_exit_def send_def
      split: option.splits)

theorem deleteSession_erases_entry_only_witness:
  "heap sample_world 0 = Some sample_session \<and>
   fst (getSession 7 sample_world) = Some 0 \<and>
   heap (deleteSession 7 sample_world) 0 = Some sample_session \<and>
   getSession 7 (deleteSession 7 sample_world) = (None, deleteSession 7 sample_world)"
  using deleteSession_erases_entry_only [of 7 sample_world 0 sample_extern]
  by (simp add: sample_world_def empty_world_def getSession_def)

subsection \<open>Answers\<close>

lemma map_of_point_inc:
  "map_of (point_inc k xs) k' =
     (if k' = k then map_option (\<lambda>sc. sc\<lparr>point := point sc + 1\<rparr>) (map_of xs k) else map_of xs k')"
  by (induction xs) (auto simp: point_inc_def)

lemma map_fst_point_inc: "map fst (point_inc k xs) = map fst xs"
  by (induction xs) (auto simp: point_inc_def)

lemma answer_ignored:
  "current_card s = None \<or> (\<exists>c. current_card s = Some c \<and> \<not> answer_ok c (msg_text m)) \<Longrightarrow>
   answer m s = (s, [])"
  by (auto simp: answer_def)

lemma answers_no_card: "current_card s = None \<Longrightarrow> answers ms s = (s, [])"
  by (induction ms) (auto simp: answer_def)

lemma answer_accepted:
  "current_card s = Some c \<Longrightarrow> answer_ok c (msg_text m) \<Longrightarrow>
   fst (answer m s) =
     s\<lparr>scores :=
          (case map_of (scores s) (from_id m) of
             None \<Rightarrow>
               scores s @
                 [(from_id m, \<lparr>point = 1,
                     full_name = firstName m @ (if lastName m = [] then [] else '' '' @ lastName m),
                     username = from_username m\<rparr>)]
           | Some old \<Rightarrow> point_inc (from_id m) (scores s)),
        current_card := None\<rparr>"
  by (simp add: answer_def Let_def emplace_def split: option.splits)

text \<open>
  C7.  An answer that finds no card in flight, or that is not correct for the card in
  flight, changes nothing and sends nothing.  A correct answer for the card in flight adds
  an unseen participant at the end of the score board with one point, or adds one to the
  point of a seen participant (in \<^verbatim>\<open>uint32_t\<close> arithmetic) and keeps the participants as
  they are; the other participants keep their scores; the card in flight is cleared, and
  every later reply, as long as no new card is drawn, changes nothing and sends nothing.
\<close>

theorem answer_scores:
  "(current_card s = None \<or> (\<exists>c. current_card s = Some c \<and> \<not> answer_ok c (msg_text m))
      \<longrightarrow> answer m s = (s, [])) \<and>
   ((\<exists>c. current_card s = Some c \<and> answer_ok c (msg_text m)) \<longrightarrow>
      (map_of (scores s) (from_id m) = None \<longrightarrow>
         scores (fst (answer m s)) = scores s @
           [(from_id m, \<lparr>point = 1,
               full_name = firstName m @ (if lastName m = [] then [] else '' '' @ lastName m),
               username = from_username m\<rparr>)]) \<and>
      (\<forall>old. map_of (scores s) (from_id m) = Some old \<longrightarrow>
         map_of (scores (fst (answer m s))) (from_id m) = Some (old\<lparr>point := point old + 1\<rparr>) \<and>
         map fst (scores (fst (answer m s))) = map fst (scores s)) \<and>
      (\<forall>k. k \<noteq> from_id m \<longrightarrow> map_of (scores (fst (answer m s))) k = map_of (scores s) k) \<and>
      current_card (fst (answer m s)) = None \<and>
      (\<forall>ms. answers ms (fst (answer m s)) = (fst (answer m s), [])))"
proof (rule conjI)
  show "current_card s = None \<or> (\<exists>c. current_card s = Some c \<and> \<not> answer_ok c (msg_text m))
      \<longrightarrow> answer m s = (s, [])"
    using answer_ignored by blast
next
  show "(\<exists>c. current_card s = Some c \<and> answer_ok c (msg_text m)) \<longrightarrow>
      (map_of (scores s) (from_id m) = None \<longrightarrow>
         scores (fst (answer m s)) = scores s @
           [(from_id m, \<lparr>point = 1,
               full_name = firstName m @ (if lastName m = [] then [] else '' '' @ lastName m),
               username = from_username m\<rparr>)]) \<and>
      (\<forall>old. map_of (scores s) (from_id m) = Some old \<longrightarrow>
         map_of (scores (fst (answer m s))) (from_id m) = Some (old\<lparr>point := point old + 1\<rparr>) \<and>
         map fst (scores (fst (answer m s))) = map fst (scores s)) \<and>
      (\<forall>k. k \<noteq> from_id m \<longrightarrow> map_of (scores (fst (answer m s))) k = map_of (scores s) k) \<and>
      current_card (fst (answer m s)) = None \<and>
      (\<forall>ms. answers ms (fst (answer m s)) = (fst (answer m s), []))"
  proof (rule impI, intro conjI)
    assume "\<exists>c. current_card s = Some c \<and> answer_ok c (msg_text m)"
    then obtain c where c: "current_card s = Some c" "answer_ok c (msg_text m)"
      by blast
    note acc = answer_accepted [OF c]
    show "map_of (scores s) (from_id m) = None \<longrightarrow>
         scores (fst (answer m s)) = scores s @
           [(from_id m, \<lparr>point = 1,
               full_name = firstName m @ (if lastName m = [] then [] else '' '' @ lastName m),
               username = from_username m\<rparr>)]"
      by (simp add: acc)
    show "\<forall>old. map_of (scores s) (from_id m) = Some old \<longrightarrow>
         map_of (scores (fst (answer m s))) (from_id m) = Some (old\<lparr>point := point old + 1\<rparr>) \<and>
         map fst (scores (fst (answer m s))) = map fst (scores s)"
      by (simp add: acc map_of_point_inc map_fst_point_inc)
    show "\<forall>k. k \<noteq> from_id m \<longrightarrow> map_of (scores (fst (answer m s))) k = map_of (scores s) k"
      by (auto simp: acc map_of_point_inc map_add_def split: option.splits)
    show none: "current_card (fst (answer m s)) = None"
      by (simp add: acc)
    show "\<forall>ms. answers ms (fst (answer m s)) = (fst (answer m s), [])"
      using answers_no_card [OF none] by blast
  qed
qed

theorem answer_scores_witness:
  "current_card asked_session = Some card_a \<and> answer_ok card_a (msg_text reply_ann) \<and>
   map_of (scores (fst (answer reply_ann asked_session))) 5 =
     Some \<lparr>point = 4, full_name = ''Ann'', username = ''ann''\<rparr> \<and>
   map fst (scores (fst (answer reply_ann asked_session))) = [5, 1, 3] \<and>
   scores (fst (answer reply_dan asked_session)) =
     sample_scores @ [(8, \<lparr>point = 1, full_name = ''Dan D'', username = ''dan''\<rparr>)] \<and>
   current_card (fst (answer reply_ann asked_session)) = None \<and>
   answers [reply_dan, reply_ann] (fst (answer reply_ann asked_session)) =
     (fst (answer reply_ann asked_session), []) \<and>
   answer reply_ann sample_session = (sample_session, [])"
  using answer_scores [of asked_session reply_ann] answer_scores [of asked_session reply_dan]
    answer_scores [of sample_session reply_ann]
  by (simp add: asked_session_def sample_session_def sample_scores_def card_a_def reply_ann_def
      reply_dan_def)


subsection \<open>A short write\<close>

lemma fwrite_whole:
  "length str \<le> cap \<Longrightarrow> fwrite bufsz cap str = (len, in_file, buffered) \<Longrightarrow>
   len = length str \<and> fclose cap in_file buffered = str"
  by (auto simp: fwrite_def fclose_def Let_def min_def split: if_splits)

lemma fwrite_buffered:
  "length str < bufsz \<Longrightarrow> fwrite bufsz cap str = (length str, [], str)"
  by (simp add: fwrite_def)

text \<open>A checkpoint that can write the whole text leaves it in the snapshot file.\<close>

lemma serializeSessions_whole:
  "g_sessions w key = Some p \<Longrightarrow> heap w p = Some s \<Longrightarrow>
   length (json_dump E (snapshot_json E s)) \<le> n \<Longrightarrow>
   files (serializeSessions E (Accepts n) key w) (sessions_dir @ snapshot_name key) =
     Some (json_dump E (snapshot_json E s))"
  by (auto simp: serializeSessions_def Let_def split: prod.splits dest: fwrite_whole)

text \<open>The count of \<^verbatim>\<open>fwrite\<close> is short when the file system refuses a byte that \<^verbatim>\<open>fwrite\<close>
  passes on itself; then the file is removed.\<close>

lemma short_count_removes_snapshot:
  "g_sessions w key = Some p \<Longrightarrow> heap w p = Some s \<Longrightarrow>
   fst (fwrite (stdio_buffer E) n (json_dump E (snapshot_json E s))) \<noteq>
     length (json_dump E (snapshot_json E s)) \<Longrightarrow>
   files (serializeSessions E (Accepts n) key w) (sessions_dir @ snapshot_name key) = None"
  by (auto simp: serializeSessions_def Let_def split: prod.splits)

text \<open>A text shorter than the buffer reaches the file only in \<^verbatim>\<open>fclose\<close>: the count of
  \<^verbatim>\<open>fwrite\<close> is the whole length, and the file keeps the bytes the file system took.\<close>

lemma buffered_short_write_stays:
  "g_sessions w key = Some p \<Longrightarrow> heap w p = Some s \<Longrightarrow>
   length (json_dump E (snapshot_json E s)) < stdio_buffer E \<Longrightarrow>
   files (serializeSessions E (Accepts n) key w) (sessions_dir @ snapshot_name key) =
     Some (take n (json_dump E (snapshot_json E s)))"
  by (simp add: serializeSessions_def Let_def fwrite_buffered fclose_def)

lemma sample_snapshot_json: "snapshot_json sample_extern sample_session = sample_snapshot"
  by (simp add: snapshot_json_def sample_extern_def sample_session_def sample_snapshot_def
      sample_scores_def key_order_def std_sort_def score_json_def getName_def sample_deck_def
      word_sless_alt)

text \<open>
  C6.  The statement does not hold of the code.  The snapshot of the sample session has 20
  bytes and the stream buffer has 4096; the file system takes 4 bytes.  \<^verbatim>\<open>fwrite\<close> returns
  20, the four bytes reach the file in \<^verbatim>\<open>fclose\<close>, whose result is not tested, and the
  snapshot file of chat 7 stays with its first four bytes.
\<close>

theorem short_write_leaves_truncated_snapshot:
  "length (json_dump sample_extern (snapshot_json sample_extern sample_session)) = 20 \<and>
   fst (fwrite (stdio_buffer sample_extern) 4
          (json_dump sample_extern (snapshot_json sample_extern sample_session))) = 20 \<and>
   files (serializeSessions sample_extern (Accepts 4) 7 sample_world)
     (sessions_dir @ snapshot_name 7) = Some ''<sna''"
proof -
  have h: "g_sessions sample_world 7 = Some 0" "heap sample_world 0 = Some sample_session"
    by (simp_all add: sample_world_def empty_world_def)
  have d: "json_dump sample_extern (snapshot_json sample_extern sample_session) =
      ''<snapshot of chat 7>''"
    by (simp add: sample_snapshot_json) (simp add: sample_extern_def)
  have b: "stdio_buffer sample_extern = 4096"
    by (simp add: sample_extern_def)
  have "files (serializeSessions sample_extern (Accepts 4) 7 sample_world)
     (sessions_dir @ snapshot_name 7) = Some (take 4 ''<snapshot of chat 7>'')"
    using buffered_short_write_stays [OF h, of sample_extern 4] by (simp add: d b)
  then show ?thesis by (simp add: d b fwrite_buffered)
qed

subsection \<open>The worker: what a pass and the loop leave as they are\<close>

lemma store_fields:
  "g_sessions (store p s w) = g_sessions w" "files (store p s w) = files w"
  "outbox (store p s w) = outbox w" "waits (store p s w) = waits w"
  "workers (store p s w) = workers w" "next_addr (store p s w) = next_addr w"
  "heap (store p s w) = (heap w)(p \<mapsto> s)"
  by (simp_all add: store_def)

lemma send_fields:
  "g_sessions (send ms w) = g_sessions w" "files (send ms w) = files w"
  "outbox (send ms w) = outbox w @ ms" "waits (send ms w) = waits w"
  "workers (send ms w) = workers w" "next_addr (send ms w) = next_addr w"
  "heap (send ms w) = heap w"
  by (simp_all add: send_def)

lemma call_session_chat_id: "chat_id (fst (call_session c s)) = chat_id s"
  by (auto simp: call_session_def answer_def stop_def setTimeout_def setNextDelay_def Let_def
      split: call.splits option.splits)

lemma run_calls_frame:
  "g_sessions (snd (run_calls p cs w)) = g_sessions w \<and>
   files (snd (run_calls p cs w)) = files w \<and>
   waits (snd (run_calls p cs w)) = waits w \<and>
   map_option chat_id (heap (snd (run_calls p cs w)) p) = map_option chat_id (heap w p)"
proof (induction cs arbitrary: w)
  case Nil
  show ?case by simp
next
  case (Cons c cs)
  show ?case
  proof (cases "heap w p")
    case None
    then show ?thesis by simp
  next
    case (Some s)
    obtain s' ms where cs: "call_session c s = (s', ms)" by (cases "call_session c s")
    have "chat_id s' = chat_id s" using call_session_chat_id [of c s] cs by simp
    then show ?thesis
      using Some cs Cons.IH [of "send ms (store p s' w)"]
      by (auto simp: store_fields send_fields split: prod.splits)
  qed
qed

lemma serializeSessions_frame:
  "g_sessions (serializeSessions E dk key w) = g_sessions w \<and>
   heap (serializeSessions E dk key w) = heap w \<and>
   outbox (serializeSessions E dk key w) = outbox w \<and>
   waits (serializeSessions E dk key w) = waits w"
  by (simp add: serializeSessions_def Let_def split: option.splits disk.splits prod.splits)

lemma delay_wait_frame:
  "g_sessions (delay_wait p cs w) = g_sessions w \<and>
   files (delay_wait p cs w) = files w \<and>
   map_option chat_id (heap (delay_wait p cs w) p) = map_option chat_id (heap w p)"
  using run_calls_frame [of p cs "w\<lparr>waits := waits w @ [Delay (next_delay (the (heap w p)))]\<rparr>"]
  by (auto simp: delay_wait_def split: option.splits)

lemma wait_for_frame:
  "g_sessions (snd (wait_for p b el a w)) = g_sessions w \<and>
   files (snd (wait_for p b el a w)) = files w \<and>
   map_option chat_id (heap (snd (wait_for p b el a w)) p) = map_option chat_id (heap w p)"
  using run_calls_frame [of p b w] run_calls_frame [of p a "snd (run_calls p b w)"]
  by (auto simp: wait_for_def split: prod.splits)

lemma after_answer_wait_frame:
  "after_answer_wait st p w = Inr w' \<Longrightarrow>
   g_sessions w' = g_sessions w \<and> files w' = files w \<and>
   map_option chat_id (heap w' p) = map_option chat_id (heap w p)"
  by (auto simp: after_answer_wait_def store_fields send_fields split: if_splits option.splits)

lemma sendCard_chat_id: "sendCard u ph c s = (ok, s1, ms) \<Longrightarrow> chat_id s1 = chat_id s"
  by (auto simp: sendCard_def split: option.splits)

lemma card_turn_frame:
  assumes "card_turn E p t c w = Inr (go, w')"
  shows "g_sessions w' = g_sessions w \<and>
         map_option chat_id (heap w' p) = map_option chat_id (heap w p)"
proof -
  from assms obtain s where s: "heap w p = Some s"
    by (auto simp: card_turn_def split: option.splits)
  obtain ok s1 ms where sc: "sendCard (image_url t) (photo_id t) c s = (ok, s1, ms)"
    by (cases "sendCard (image_url t) (photo_id t) c s") auto
  have cid: "chat_id s1 = chat_id s" using sendCard_chat_id [OF sc] .
  show ?thesis
  proof (cases ok)
    case False
    then show ?thesis using assms s sc cid
      by (auto simp: card_turn_def store_fields send_fields)
  next
    case True
    define w0 where "w0 = (send ms (store p s1 w))\<lparr>waits := waits w @ [AwaitAnswer (getQuestion c) (timeout s1)]\<rparr>"
    obtain st w1 where wf: "wait_for p (calls_in_wait t) (elapsed t) (calls_at_wake t) w0 = (st, w1)"
      by (cases "wait_for p (calls_in_wait t) (elapsed t) (calls_at_wake t) w0") auto
    from assms s sc True wf obtain w2 where
      aw: "after_answer_wait st p w1 = Inr w2" and
      w': "w' = serializeSessions E (disk_state t) (chat_id s) (delay_wait p (calls_in_delay t) w2)"
      by (auto simp: card_turn_def w0_def split: sum.splits)
    have f0: "g_sessions w0 = g_sessions w" "map_option chat_id (heap w0 p) = Some (chat_id s)"
      by (simp_all add: w0_def store_fields send_fields cid)
    have f1: "g_sessions w1 = g_sessions w0" "map_option chat_id (heap w1 p) = map_option chat_id (heap w0 p)"
      using wait_for_frame [of p "calls_in_wait t" "elapsed t" "calls_at_wake t" w0] wf by simp_all
    note f2 = after_answer_wait_frame [OF aw]
    note f3 = delay_wait_frame [of p "calls_in_delay t" w2]
    note f4 = serializeSessions_frame [of E "disk_state t" "chat_id s" "delay_wait p (calls_in_delay t) w2"]
    show ?thesis using s f0 f1 f2 f3 f4 w' by simp
  qed
qed

lemma worker_loop_dead: "heap w p = None \<Longrightarrow> worker_loop E p ts w = Inl UseAfterFree"
  by (subst worker_loop.simps) simp

lemma worker_loop_stops:
  "heap w p = Some s \<Longrightarrow> should_stop s \<or> isFinished (deck s) \<Longrightarrow> worker_loop E p ts w = Inr w"
  by (subst worker_loop.simps) auto

lemma worker_loop_no_card:
  "heap w p = Some s \<Longrightarrow> \<not> should_stop s \<Longrightarrow> \<not> isFinished (deck s) \<Longrightarrow>
   draw (deck s) = (None, d) \<Longrightarrow>
   worker_loop E p ts w = Inr (store p (s\<lparr>deck := d, current_card := None\<rparr>) w)"
  by (subst worker_loop.simps) simp

lemma worker_loop_blocked:
  "heap w p = Some s \<Longrightarrow> \<not> should_stop s \<Longrightarrow> \<not> isFinished (deck s) \<Longrightarrow>
   draw (deck s) = (Some c, d) \<Longrightarrow> worker_loop E p [] w = Inl Blocked"
  by (subst worker_loop.simps) simp

lemma worker_loop_pass:
  "heap w p = Some s \<Longrightarrow> \<not> should_stop s \<Longrightarrow> \<not> isFinished (deck s) \<Longrightarrow>
   draw (deck s) = (Some c, d) \<Longrightarrow>
   worker_loop E p (t # ts') w =
     (case card_turn E p t c (store p (s\<lparr>deck := d, current_card := Some c\<rparr>) w) of
        Inl f \<Rightarrow> Inl f
      | Inr (go_on, w') \<Rightarrow> if go_on then worker_loop E p ts' w' else Inr w')"
  by (subst worker_loop.simps) simp

lemma worker_loop_frame:
  "worker_loop E p ts w = Inr w' \<Longrightarrow>
   g_sessions w' = g_sessions w \<and>
   map_option chat_id (heap w' p) = map_option chat_id (heap w p) \<and> heap w p \<noteq> None"
proof (induction ts arbitrary: w)
  case Nil
  then obtain s where s: "heap w p = Some s"
    using worker_loop_dead [of w p E "[]"] by (cases "heap w p") auto
  show ?case
  proof (cases "should_stop s \<or> isFinished (deck s)")
    case True
    then show ?thesis using Nil s worker_loop_stops [OF s True, of E "[]"] by simp
  next
    case False
    obtain oc d where dr: "draw (deck s) = (oc, d)" by (cases "draw (deck s)") auto
    show ?thesis
    proof (cases oc)
      case None
      then show ?thesis
        using Nil s False dr worker_loop_no_card [of w p s d E "[]"] by (auto simp: store_fields)
    next
      case (Some c)
      then show ?thesis
        using Nil s False dr worker_loop_blocked [of w p s c d E] by auto
    qed
  qed
next
  case (Cons t ts')
  then obtain s where s: "heap w p = Some s"
    using worker_loop_dead [of w p E "t # ts'"] by (cases "heap w p") auto
  show ?case
  proof (cases "should_stop s \<or> isFinished (deck s)")
    case True
    then show ?thesis using Cons.prems s worker_loop_stops [OF s True, of E "t # ts'"] by simp
  next
    case False
    obtain oc d where dr: "draw (deck s) = (oc, d)" by (cases "draw (deck s)") auto
    show ?thesis
    proof (cases oc)
      case None
      then show ?thesis
        using Cons.prems s False dr worker_loop_no_card [of w p s d E "t # ts'"]
        by (auto simp: store_fields)
    next
      case (Some c)
      define w0 where "w0 = store p (s\<lparr>deck := d, current_card := Some c\<rparr>) w"
      have step: "worker_loop E p (t # ts') w =
          (case card_turn E p t c w0 of Inl f \<Rightarrow> Inl f
           | Inr (go_on, w') \<Rightarrow> if go_on then worker_loop E p ts' w' else Inr w')"
        using worker_loop_pass [of w p s c d E t ts'] s False dr Some by (simp add: w0_def)
      with Cons.prems obtain go w1 where ct: "card_turn E p t c w0 = Inr (go, w1)"
        by (auto split: sum.splits)
      note f = card_turn_frame [OF ct]
      have f0: "g_sessions w0 = g_sessions w"
        "map_option chat_id (heap w0 p) = map_option chat_id (heap w p)"
        by (simp_all add: w0_def store_fields s)
      show ?thesis
      proof (cases go)
        case False
        with Cons.prems step ct have "w' = w1" by simp
        then show ?thesis using f f0 s by simp
      next
        case True
        with Cons.prems step ct have "worker_loop E p ts' w1 = Inr w'" by simp
        from Cons.IH [OF this] show ?thesis using f f0 s by simp
      qed
    qed
  qed
qed


lemma run_calls_notified:
  "heap w p = Some s \<Longrightarrow> SetTimeout tv True \<in> set cs \<Longrightarrow> fst (run_calls p cs w)"
proof (induction cs arbitrary: w s)
  case Nil
  then show ?case by simp
next
  case (Cons c cs)
  obtain s' ms where cs: "call_session c s = (s', ms)" by (cases "call_session c s")
  show ?case
  proof (cases "c = SetTimeout tv True")
    case True
    then show ?thesis using Cons.prems cs by (simp add: notifies_def split: prod.splits)
  next
    case False
    then have "SetTimeout tv True \<in> set cs" using Cons.prems by simp
    moreover have "heap (send ms (store p s' w)) p = Some s'" by (simp add: store_fields send_fields)
    ultimately have "fst (run_calls p cs (send ms (store p s' w)))" using Cons.IH by blast
    then show ?thesis using Cons.prems(1) cs by (auto split: prod.splits)
  qed
qed

lemma run_calls_no_answer:
  "heap w p = Some s \<Longrightarrow> \<forall>m. Answer m \<notin> set cs \<Longrightarrow>
   \<exists>s'. heap (snd (run_calls p cs w)) p = Some s' \<and> current_card s' = current_card s \<and>
        scores s' = scores s \<and> deck s' = deck s \<and> chat_id s' = chat_id s \<and>
        outbox (snd (run_calls p cs w)) = outbox w \<and> waits (snd (run_calls p cs w)) = waits w"
proof (induction cs arbitrary: w s)
  case Nil
  then show ?case by simp
next
  case (Cons c cs)
  obtain s' ms where cs: "call_session c s = (s', ms)" by (cases "call_session c s")
  have c: "\<forall>m. c \<noteq> Answer m" using Cons.prems by auto
  then have s': "current_card s' = current_card s \<and> scores s' = scores s \<and> deck s' = deck s \<and>
      chat_id s' = chat_id s \<and> ms = []"
    using cs by (cases c) (auto simp: call_session_def stop_def setTimeout_def setNextDelay_def)
  have h: "heap (send ms (store p s' w)) p = Some s'" by (simp add: store_fields send_fields)
  have "\<forall>m. Answer m \<notin> set cs" using Cons.prems by auto
  from Cons.IH [OF h this] s' show ?case
    using Cons.prems(1) cs by (auto simp: store_fields send_fields split: prod.splits)
qed

subsection \<open>A wake-up by \<^verbatim>\<open>setTimeout\<close>\<close>

text \<open>
  C3, as amended.  The card \<^verbatim>\<open>c\<close> has been sent and the worker waits for its answer.  If
  \<^verbatim>\<open>setTimeout(tv, true)\<close> is called during the wait, and no answer arrives in this pass, then
  whether or not the time has run out meanwhile: the pass goes on after the wait, nothing
  but the photo of the question is sent (no reply to an answer, no time's-up notice), no
  point is awarded, and the card in flight is still \<^verbatim>\<open>c\<close> at the end of the pass.  The worker
  does not wait for the answer again: after the wait it enters at most the pause before the
  next card, then writes the checkpoint.
\<close>

theorem skip_wake_is_no_answer_no_timeout:
  assumes alive: "heap w p = Some s" and card: "current_card s = Some c"
    and url: "image_url t = Some u" and photo: "photo_id t = Some mid"
    and skip: "SetTimeout tv True \<in> set (calls_in_wait t)"
    and noans: "\<forall>m. Answer m \<notin> set (calls_in_wait t @ calls_at_wake t @ calls_in_delay t)"
  shows "\<exists>w' s'. card_turn E p t c w = Inr (True, w') \<and>
           heap w' p = Some s' \<and> current_card s' = Some c \<and> scores s' = scores s \<and>
           outbox w' = outbox w @
             [SendPhoto (chat_id s) u
                (getQuestionInfo c @ ''\<newline>\<newline>Timeout: '' @ to_string (uint (timeout s)) @ '' seconds'')
                (last_msg_id s)] \<and>
           (\<exists>rest. waits w' = waits w @ AwaitAnswer (getQuestion c) (timeout s) # rest \<and>
                   (rest = [] \<or> (\<exists>d. rest = [Delay d])))"
proof -
  define s1 where "s1 = s\<lparr>last_msg_id := mid\<rparr>"
  define ph where "ph = SendPhoto (chat_id s) u
      (getQuestionInfo c @ ''\<newline>\<newline>Timeout: '' @ to_string (uint (timeout s)) @ '' seconds'')
      (last_msg_id s)"
  define w0 where "w0 = (send [ph] (store p s1 w))\<lparr>waits := waits w @ [AwaitAnswer (getQuestion c) (timeout s1)]\<rparr>"
  have sc: "sendCard (image_url t) (photo_id t) c s = (True, s1, [ph])"
    by (simp add: sendCard_def url photo s1_def ph_def)
  have h0: "heap w0 p = Some s1" by (simp add: w0_def store_fields send_fields)
  define wa where "wa = snd (run_calls p (calls_in_wait t) w0)"
  define w1 where "w1 = snd (run_calls p (calls_at_wake t) wa)"
  have n: "fst (run_calls p (calls_in_wait t) w0)"
    using run_calls_notified [OF h0 skip] .
  have wf: "wait_for p (calls_in_wait t) (elapsed t) (calls_at_wake t) w0 = (no_timeout, w1)"
    using n by (auto simp: wait_for_def wa_def w1_def split: prod.splits)
  from run_calls_no_answer [OF h0, of "calls_in_wait t"] noans
  obtain sa where sa: "heap wa p = Some sa" "current_card sa = current_card s1"
    "scores sa = scores s1" "deck sa = deck s1" "chat_id sa = chat_id s1"
    "outbox wa = outbox w0" "waits wa = waits w0"
    unfolding wa_def by auto
  from run_calls_no_answer [OF sa(1), of "calls_at_wake t"] noans
  obtain sb where sb: "heap w1 p = Some sb" "current_card sb = current_card sa"
    "scores sb = scores sa" "deck sb = deck sa" "chat_id sb = chat_id sa"
    "outbox w1 = outbox wa" "waits w1 = waits wa"
    unfolding w1_def by auto
  define w2 where "w2 = delay_wait p (calls_in_delay t) w1"
  define w' where "w' = serializeSessions E (disk_state t) (chat_id s) w2"
  have ct: "card_turn E p t c w = Inr (True, w')"
    using alive sc wf
    by (simp add: card_turn_def after_answer_wait_def w0_def w2_def w'_def)
  have d: "\<exists>sd. heap w2 p = Some sd \<and> current_card sd = current_card sb \<and> scores sd = scores sb \<and>
      outbox w2 = outbox w1 \<and> (waits w2 = waits w1 \<or> (\<exists>d. waits w2 = waits w1 @ [Delay d]))"
  proof (cases "\<not> isFinished (deck sb) \<and> \<not> should_stop sb")
    case False
    then show ?thesis using sb(1) by (auto simp: w2_def delay_wait_def)
  next
    case True
    define wd where "wd = w1\<lparr>waits := waits w1 @ [Delay (next_delay sb)]\<rparr>"
    have hd: "heap wd p = Some sb" by (simp add: wd_def sb(1))
    from run_calls_no_answer [OF hd, of "calls_in_delay t"] noans
    obtain sd where "heap (snd (run_calls p (calls_in_delay t) wd)) p = Some sd"
      "current_card sd = current_card sb" "scores sd = scores sb"
      "outbox (snd (run_calls p (calls_in_delay t) wd)) = outbox wd"
      "waits (snd (run_calls p (calls_in_delay t) wd)) = waits wd"
      by auto
    moreover have "w2 = snd (run_calls p (calls_in_delay t) wd)"
      using True sb(1) by (simp add: w2_def delay_wait_def wd_def)
    ultimately show ?thesis by (auto simp: wd_def)
  qed
  then obtain sd where sd: "heap w2 p = Some sd" "current_card sd = current_card sb"
    "scores sd = scores sb" "outbox w2 = outbox w1"
    "waits w2 = waits w1 \<or> (\<exists>d. waits w2 = waits w1 @ [Delay d])"
    by blast
  note f = serializeSessions_frame [of E "disk_state t" "chat_id s" w2]
  have "heap w' p = Some sd" using f sd(1) by (simp add: w'_def)
  moreover have "current_card sd = Some c" "scores sd = scores s"
    using sd sb sa card by (simp_all add: s1_def)
  moreover have "outbox w' = outbox w @ [ph]"
    using f sd sb sa by (simp add: w'_def w0_def store_fields send_fields)
  moreover have "\<exists>rest. waits w' = waits w @ AwaitAnswer (getQuestion c) (timeout s) # rest \<and>
                   (rest = [] \<or> (\<exists>d. rest = [Delay d]))"
    using f sd(5) sb sa by (auto simp: w'_def w0_def s1_def)
  ultimately show ?thesis using ct unfolding ph_def by blast
qed

theorem skip_wake_is_no_answer_no_timeout_witness:
  "heap asked_world 0 = Some asked_session \<and> current_card asked_session = Some card_a \<and>
   image_url turn_skip = Some ''url1'' \<and> photo_id turn_skip = Some 11 \<and>
   SetTimeout 60 True \<in> set (calls_in_wait turn_skip) \<and>
   map_sum id (\<lambda>r. (fst r, waits (snd r), outbox (snd r)))
     (card_turn sample_extern 0 turn_skip card_a asked_world) =
     Inr (True, [AwaitAnswer ''q1'' 30, Delay 5],
          [SendPhoto 7 ''url1'' ''info1\<newline>\<newline>Timeout: 30 seconds'' 0])"
proof -
  have h: "heap asked_world 0 = Some asked_session" "current_card asked_session = Some card_a"
    "image_url turn_skip = Some ''url1''" "photo_id turn_skip = Some 11"
    "SetTimeout 60 True \<in> set (calls_in_wait turn_skip)"
    "\<forall>m. Answer m \<notin> set (calls_in_wait turn_skip @ calls_at_wake turn_skip @ calls_in_delay turn_skip)"
    by (simp_all add: asked_world_def asked_session_def store_def turn_skip_def)
  have e: "map_sum id (\<lambda>r. (fst r, waits (snd r), outbox (snd r)))
     (card_turn sample_extern 0 turn_skip card_a asked_world) =
     Inr (True, [AwaitAnswer ''q1'' 30, Delay 5],
          [SendPhoto 7 ''url1'' ''info1\<newline>\<newline>Timeout: 30 seconds'' 0])"
    by code_simp
  from skip_wake_is_no_answer_no_timeout [OF h, of sample_extern] h e show ?thesis by simp
qed

text \<open>
  C3 as stated fails in its last part.  The sample session draws the question \<^verbatim>\<open>q1\<close> and
  waits 30 seconds for the answer; \<^verbatim>\<open>setTimeout(60, true)\<close> wakes the worker.  The waits of
  the run are the wait for the answer to \<^verbatim>\<open>q1\<close>, the pause of 5 seconds, and the wait of 60
  seconds for the answer to the next question \<^verbatim>\<open>q2\<close>: the wait for \<^verbatim>\<open>q1\<close> is not entered
  again.
\<close>

theorem skip_wake_counterexample:
  "map_sum id waits (worker_loop sample_extern 0 [turn_skip, turn_timeout] sample_world) =
     Inr [AwaitAnswer ''q1'' 30, Delay 5, AwaitAnswer ''q2'' 60] \<and>
   \<not> waits_again_for ''q1'' sample_extern 0 [turn_skip, turn_timeout] sample_world"
  by code_simp

subsection \<open>The end of the worker\<close>

text \<open>
  C5, as amended.  When the worker of a live session ends, the chat id of the session is not
  registered any more and the other chat ids are registered as before; the finish summary
  is the last thing sent; and the files are as the loop left them: the end of the worker
  removes no snapshot file.
\<close>

theorem finish_deregisters_keeps_files:
  assumes run: "worker E p ts w = Inr w'" and alive: "heap w p = Some s"
  shows "g_sessions w' (chat_id s) = None \<and>
         (\<forall>c. c \<noteq> chat_id s \<longrightarrow> g_sessions w' c = g_sessions w c) \<and>
         (\<exists>wl sl. worker_loop E p ts
                    (store p (s\<lparr>ref_count := ref_count s + 1,
                                deck := (deck s)\<lparr>cards := deck_shuffle E (cards (deck s))\<rparr>\<rparr>) w)
                  = Inr wl \<and>
                  heap wl p = Some sl \<and> files w' = files wl \<and>
                  outbox w' = outbox wl @ sendFinishMessage E sl)"
proof -
  define w0 where "w0 = store p (s\<lparr>ref_count := ref_count s + 1,
                                deck := (deck s)\<lparr>cards := deck_shuffle E (cards (deck s))\<rparr>\<rparr>) w"
  from run alive obtain wl where loop: "worker_loop E p ts w0 = Inr wl"
    and ex: "worker_exit E p wl = Inr w'"
    by (auto simp: worker_def w0_def split: sum.splits)
  from worker_loop_frame [OF loop]
  have f: "g_sessions wl = g_sessions w" "map_option chat_id (heap wl p) = Some (chat_id s)"
    by (simp_all add: w0_def store_fields)
  then obtain sl where sl: "heap wl p = Some sl" "chat_id sl = chat_id s" by auto
  define w1 where "w1 = deleteSession (chat_id s) (send (sendFinishMessage E sl) wl)"
  have w1: "heap w1 = heap wl" "files w1 = files wl" "outbox w1 = outbox wl @ sendFinishMessage E sl"
    "g_sessions w1 = (g_sessions w)(chat_id s := None)"
    using f(1) by (auto simp: w1_def deleteSession_def send_fields split: option.splits)
  have "worker_release p w1 = Inr w'"
    using ex sl by (simp add: worker_exit_def worker_finish_def w1_def)
  then have "g_sessions w' = g_sessions w1 \<and> files w' = files w1 \<and> outbox w' = outbox w1"
    using sl w1(1) by (auto simp: worker_release_def store_fields split: if_splits)
  then show ?thesis using w1 loop sl unfolding w0_def by auto
qed

theorem finish_deregisters_keeps_files_witness:
  "heap sample_world 0 = Some sample_session \<and>
   map_sum id (\<lambda>w'. (g_sessions w' 7, files w' (sessions_dir @ snapshot_name 7)))
     (worker sample_extern 0 [turn_skip, turn_timeout] sample_world) =
     Inr (None, Some ''<snapshot of chat 7>'')"
proof -
  have h: "heap sample_world 0 = Some sample_session"
    by (simp add: sample_world_def empty_world_def)
  have e: "map_sum id (\<lambda>w'. (g_sessions w' 7, files w' (sessions_dir @ snapshot_name 7)))
     (worker sample_extern 0 [turn_skip, turn_timeout] sample_world) =
     Inr (None, Some ''<snapshot of chat 7>'')"
    by code_simp
  then obtain w' where r: "worker sample_extern 0 [turn_skip, turn_timeout] sample_world = Inr w'"
    by (cases "worker sample_extern 0 [turn_skip, turn_timeout] sample_world") auto
  from finish_deregisters_keeps_files [OF r h] h e show ?thesis by simp
qed

text \<open>
  C5 as stated fails: the worker of the sample session ends after two questions; chat 7 is
  deregistered, and the snapshot file of chat 7, written by the last checkpoint, still
  exists.
\<close>

theorem finish_counterexample:
  "\<not> finish_removes_snapshot sample_extern 0 [turn_skip, turn_timeout] sample_world"
  by code_simp

subsection \<open>Recovery at start-up\<close>

lemma createSession_frame:
  "files (snd (createSession E c dn w)) = files w \<and>
   outbox (snd (createSession E c dn w)) = outbox w \<and>
   workers (snd (createSession E c dn w)) = workers w"
  by (simp add: createSession_def Let_def split: option.splits)

lemma start_worker_frame:
  "files (start_worker E p w) = files w \<and> heap (start_worker E p w) = heap w \<and>
   g_sessions (start_worker E p w) = g_sessions w"
  by (simp add: start_worker_def send_fields split: option.splits)

lemma createSession_files: "createSession E c dn w = (r, w') \<Longrightarrow> files w' = files w"
  using createSession_frame [of E c dn w] by simp

lemma initSessionFromJson_files: "files (initSessionFromJson E j w) = files w"
  by (auto simp: initSessionFromJson_def start_worker_frame
      split: json.splits option.splits prod.splits dest: createSession_files)

lemma init_entry_files: "files (init_entry E n w) = files w"
  by (simp add: init_entry_def initSessionFromJson_files split: list.splits option.splits)

lemma init_scan_files: "files (init_scan E ns w) = files w"
  by (induction ns arbitrary: w) (simp_all add: init_entry_files)

lemma init_scan_append: "init_scan E (xs @ ys) w = init_scan E ys (init_scan E xs w)"
  by (induction xs arbitrary: w) simp_all

lemma initSessionFromJson_malformed:
  "field_integer ''chat_id'' j = None \<or> field_string ''deck_name'' j = None \<or>
   field_array ''scores'' j = None \<Longrightarrow> initSessionFromJson E j w = w"
  by (auto simp: initSessionFromJson_def split: json.splits option.splits)

lemma init_entry_malformed:
  "files w (sessions_dir @ n) = Some str \<Longrightarrow> malformed_snapshot E str \<Longrightarrow> init_entry E n w = w"
  by (auto simp: init_entry_def load_str_from_file_def malformed_snapshot_def
      initSessionFromJson_malformed split: list.splits option.splits)

text \<open>
  C8.  A directory entry whose file is malformed (its text does not parse, or \<^verbatim>\<open>chat_id\<close>,
  \<^verbatim>\<open>deck_name\<close> or \<^verbatim>\<open>scores\<close> is missing or of the wrong type) is skipped by the recovery scan:
  the scan of a directory that holds the entry ends in the state in which the scan of the
  same directory without the entry ends, so every other entry is handled as if the
  malformed one were not there.
\<close>

theorem malformed_entry_is_skipped:
  assumes "files w (sessions_dir @ n) = Some str" and "malformed_snapshot E str"
  shows "init E (Some (pre @ n # post)) w = init E (Some (pre @ post)) w"
proof -
  have "files (init_scan E pre w) (sessions_dir @ n) = Some str"
    using assms(1) by (simp add: init_scan_files)
  then have "init_entry E n (init_scan E pre w) = init_scan E pre w"
    using assms(2) by (rule init_entry_malformed)
  then show ?thesis by (simp add: init_def init_scan_append)
qed

theorem malformed_entry_is_skipped_witness:
  "files disk_world (sessions_dir @ ''s_bad'') = Some ''<no scores>'' \<and>
   malformed_snapshot sample_extern ''<no scores>'' \<and>
   files disk_world (sessions_dir @ ''s_junk'') = Some ''{'' \<and>
   malformed_snapshot sample_extern ''{'' \<and>
   init sample_extern (Some [''s_junk'', ''s_bad'', ''s_7.json'']) disk_world =
     init sample_extern (Some [''s_7.json'']) disk_world \<and>
   g_sessions (init sample_extern (Some [''s_junk'', ''s_bad'', ''s_7.json'']) disk_world) 7 = Some 0 \<and>
   map_option (map fst \<circ> scores)
     (heap (init sample_extern (Some [''s_junk'', ''s_bad'', ''s_7.json'']) disk_world) 0) =
     Some [1, 3, 5]"
proof -
  have f: "files disk_world (sessions_dir @ ''s_bad'') = Some ''<no scores>''"
    "files disk_world (sessions_dir @ ''s_junk'') = Some ''{''"
    by (simp_all add: disk_world_def empty_world_def sessions_dir_def)
  have m: "malformed_snapshot sample_extern ''<no scores>''" "malformed_snapshot sample_extern ''{''"
    by (simp_all add: malformed_snapshot_def sample_extern_def field_array_def find_key_def)
  have e: "init sample_extern (Some [''s_junk'', ''s_bad'', ''s_7.json'']) disk_world =
     init sample_extern (Some [''s_7.json'']) disk_world"
    using malformed_entry_is_skipped [OF f(1) m(1), of "[''s_junk'']" "[''s_7.json'']"]
      malformed_entry_is_skipped [OF f(2) m(2), of "[]" "[''s_7.json'']"]
    by simp
  have r: "g_sessions (init sample_extern (Some [''s_7.json'']) disk_world) 7 = Some 0"
    "map_option (map fst \<circ> scores)
     (heap (init sample_extern (Some [''s_7.json'']) disk_world) 0) = Some [1, 3, 5]"
    by code_simp+
  show ?thesis using f m e r by simp
qed

lemma emplace_fresh: "k \<notin> fst ` set xs \<Longrightarrow> emplace k v xs = xs @ [(k, v)]"
  by (simp add: emplace_def map_of_eq_None_iff)

lemma restore_score_json:
  "fst e \<notin> fst ` set acc \<Longrightarrow> restore_score acc (score_json e) = acc @ [e]"
  by (cases e) (simp add: restore_score_def score_json_def field_integer_def field_string_def
      find_key_def emplace_fresh)

lemma restore_scores:
  "distinct (map fst xs) \<Longrightarrow> fst ` set acc \<inter> fst ` set xs = {} \<Longrightarrow>
   foldl restore_score acc (map score_json xs) = acc @ xs"
proof (induction xs arbitrary: acc)
  case Nil
  then show ?case by simp
next
  case (Cons x xs)
  have "restore_score acc (score_json x) = acc @ [x]"
    using Cons.prems(2) by (intro restore_score_json) auto
  moreover have "fst ` set (acc @ [x]) \<inter> fst ` set xs = {}"
    using Cons.prems by auto
  ultimately show ?case using Cons.IH [of "acc @ [x]"] Cons.prems(1) by simp
qed

lemma snapshot_fields:
  "field_integer ''chat_id'' (snapshot_json E s) = Some (sint (chat_id s))"
  "field_string ''deck_name'' (snapshot_json E s) = Some (getName (deck s))"
  "field_array ''scores'' (snapshot_json E s) = Some (map score_json (scores_order E (scores s)))"
  by (simp_all add: snapshot_json_def field_integer_def field_string_def field_array_def find_key_def)

lemma initSessionFromJson_object:
  "initSessionFromJson E (JObject kv) w =
     (case field_integer ''chat_id'' (JObject kv) of None \<Rightarrow> w | Some cid \<Rightarrow>
     (case field_string ''deck_name'' (JObject kv) of None \<Rightarrow> w | Some dn \<Rightarrow>
     (case field_array ''scores'' (JObject kv) of None \<Rightarrow> w | Some arr \<Rightarrow>
        (case createSession E (word_of_int cid) dn w of
           (None, w') \<Rightarrow> w'
         | (Some p, w') \<Rightarrow>
             start_worker E p
               (w'\<lparr>heap := (heap w')(p := map_option
                       (\<lambda>s. s\<lparr>scores := foldl restore_score (scores s) arr\<rparr>) (heap w' p))\<rparr>)))))"
  by (simp add: initSessionFromJson_def)

text \<open>
  C4, as amended.  A live, registered session is saved by a checkpoint that writes the whole
  snapshot, and a new process, in which the chat id is not registered, scans a directory
  that holds the snapshot file.  Provided that the JSON library reads back the text it
  wrote, that the container enumerates each entry once and that the deck can be created
  again, the chat id is registered again with a live session whose score board maps the
  same participant ids to the same point, full name and username.  The restored session has
  no card in flight, and its deck is the deck newly created for the saved name, from which
  no card is drawn.  The snapshot does not depend on the cards the saved session had left
  or had in flight: the position in the deck is not saved.
\<close>

theorem save_restore_roundtrip:
  assumes reg: "g_sessions w (chat_id s) = Some p" "heap w p = Some s"
    and full: "length (json_dump E (snapshot_json E s)) \<le> n"
    and codec: "json_parse E (json_dump E (snapshot_json E s)) = Some (snapshot_json E s)"
    and order: "mset (scores_order E (scores s)) = mset (scores s)"
    and keys: "distinct (map fst (scores s))"
    and again: "createDeck E (getName (deck s)) = Some d"
    and restart: "files w0 = files (serializeSessions E (Accepts n) (chat_id s) w)"
      "g_sessions w0 (chat_id s) = None"
  shows "(\<exists>p' s'. g_sessions (init E (Some [snapshot_name (chat_id s)]) w0) (chat_id s) = Some p' \<and>
           heap (init E (Some [snapshot_name (chat_id s)]) w0) p' = Some s' \<and>
           map_of (scores s') = map_of (scores s) \<and>
           deck s' = d \<and> current_card s' = None) \<and>
         (\<forall>cs cc. snapshot_json E (s\<lparr>deck := (deck s)\<lparr>cards := cs\<rparr>, current_card := cc\<rparr>) =
                  snapshot_json E s)"
proof (rule conjI)
  define c where "c = chat_id s"
  define j where "j = snapshot_json E s"
  have fl: "files w0 (sessions_dir @ snapshot_name c) = Some (json_dump E j)"
    using serializeSessions_whole [OF reg full] by (simp add: restart(1) c_def j_def)
  have entry: "init E (Some [snapshot_name c]) w0 = initSessionFromJson E j w0"
    using fl codec
    by (simp add: init_def init_entry_def snapshot_name_def load_str_from_file_def j_def)
  define sess where "sess = (new_Session E c d)\<lparr>ref_count := 1\<rparr>"
  have cs: "createSession E c (getName (deck s)) w0 =
      (Some (next_addr w0),
       w0\<lparr>g_sessions := (g_sessions w0)(c \<mapsto> next_addr w0),
          heap := (heap w0)(next_addr w0 \<mapsto> sess),
          next_addr := next_addr w0 + 1\<rparr>)"
    using restart(2) again by (simp add: createSession_def c_def sess_def new_Session_def Let_def)
  define xs where "xs = scores_order E (scores s)"
  have dx: "distinct (map fst xs)"
    using keys order unfolding xs_def
    by (metis distinct_map mset_eq_imp_distinct_iff set_mset_mset inj_on_cong mset_map distinct_map)
  have rs: "foldl restore_score [] (map score_json xs) = xs"
    using restore_scores [OF dx, of "[]"] by simp
  define s' where "s' = sess\<lparr>scores := xs\<rparr>"
  have obj: "j = JObject [(''chat_id'', JInteger (sint (chat_id s))),
              (''deck_name'', JString (getName (deck s))),
              (''scores'', JArray (map score_json (scores_order E (scores s))))]"
    by (simp add: j_def snapshot_json_def)
  have res: "g_sessions (initSessionFromJson E j w0) c = Some (next_addr w0) \<and>
      heap (initSessionFromJson E j w0) (next_addr w0) = Some s'"
    unfolding obj initSessionFromJson_object
    using cs rs
    by (simp add: field_integer_def field_string_def field_array_def find_key_def c_def
        start_worker_frame xs_def s'_def sess_def new_Session_def)
  have "map_of xs = map_of (scores s)"
    using dx keys order unfolding xs_def
    by (metis map_of_inject_set mset_eq_setD)
  then have "map_of (scores s') = map_of (scores s) \<and> deck s' = d \<and> current_card s' = None"
    by (simp add: s'_def sess_def new_Session_def)
  then show "\<exists>p' s'. g_sessions (init E (Some [snapshot_name (chat_id s)]) w0) (chat_id s) = Some p' \<and>
           heap (init E (Some [snapshot_name (chat_id s)]) w0) p' = Some s' \<and>
           map_of (scores s') = map_of (scores s) \<and>
           deck s' = d \<and> current_card s' = None"
    using res entry unfolding c_def
    by (intro exI [of _ "next_addr w0"] exI [of _ s']) simp
next
  show "\<forall>cs cc. snapshot_json E (s\<lparr>deck := (deck s)\<lparr>cards := cs\<rparr>, current_card := cc\<rparr>) =
                  snapshot_json E s"
    by (simp add: snapshot_json_def getName_def)
qed

lemma asked_snapshot_json: "snapshot_json sample_extern asked_session = sample_snapshot"
  by (simp add: snapshot_json_def sample_extern_def asked_session_def sample_session_def
      sample_snapshot_def sample_scores_def key_order_def std_sort_def score_json_def
      getName_def sample_deck_def word_sless_alt)

theorem save_restore_roundtrip_witness:
  "g_sessions asked_world (chat_id asked_session) = Some 0 \<and>
   heap asked_world 0 = Some asked_session \<and>
   map_option getQuestion (current_card asked_session) = Some ''q1'' \<and>
   length (json_dump sample_extern (snapshot_json sample_extern asked_session)) \<le> 1000 \<and>
   distinct (map fst (scores asked_session)) \<and>
   createDeck sample_extern (getName (deck asked_session)) = Some sample_deck \<and>
   g_sessions (init sample_extern (Some [snapshot_name 7]) restart_world) 7 = Some 0 \<and>
   map_option (\<lambda>s'. (map_of (scores s') 5, map_of (scores s') 1, map_of (scores s') 3,
                      map getQuestion (cards (deck s')), map_option getQuestion (current_card s')))
     (heap (init sample_extern (Some [snapshot_name 7]) restart_world) 0) =
     Some (Some \<lparr>point = 3, full_name = ''Ann'', username = ''ann''\<rparr>,
           Some \<lparr>point = 1, full_name = ''Bob'', username = ''bob''\<rparr>,
           Some \<lparr>point = 3, full_name = ''Cy'', username = ''cy''\<rparr>,
           [''q1'', ''q2''], None)"
proof -
  have c: "chat_id asked_session = 7" by (simp add: asked_session_def sample_session_def)
  have reg: "g_sessions asked_world (chat_id asked_session) = Some 0"
    "heap asked_world 0 = Some asked_session"
    by (simp_all add: asked_world_def store_def sample_world_def empty_world_def c)
  have q: "map_option getQuestion (current_card asked_session) = Some ''q1''"
    by (simp add: asked_session_def card_a_def)
  have snap: "snapshot_json sample_extern asked_session = sample_snapshot"
    by (rule asked_snapshot_json)
  have full: "length (json_dump sample_extern (snapshot_json sample_extern asked_session)) \<le> 1000"
    unfolding snap by (simp add: sample_extern_def)
  have codec: "json_parse sample_extern (json_dump sample_extern (snapshot_json sample_extern asked_session))
      = Some (snapshot_json sample_extern asked_session)"
    unfolding snap by (simp add: sample_extern_def)
  have order: "mset (scores_order sample_extern (scores asked_session)) = mset (scores asked_session)"
    by (simp add: sample_extern_def key_order_def mset_std_sort)
  have keys: "distinct (map fst (scores asked_session))"
    by (simp add: asked_session_def sample_session_def sample_scores_def)
  have again: "createDeck sample_extern (getName (deck asked_session)) = Some sample_deck"
    by (simp add: sample_extern_def getName_def asked_session_def sample_session_def sample_deck_def)
  have restart: "files restart_world =
      files (serializeSessions sample_extern (Accepts 1000) (chat_id asked_session) asked_world)"
    "g_sessions restart_world (chat_id asked_session) = None"
    by (simp_all add: restart_world_def empty_world_def c)
  have e: "g_sessions (init sample_extern (Some [snapshot_name 7]) restart_world) 7 = Some 0"
    "map_option (\<lambda>s'. (map_of (scores s') 5, map_of (scores s') 1, map_of (scores s') 3,
                      map getQuestion (cards (deck s')), map_option getQuestion (current_card s')))
     (heap (init sample_extern (Some [snapshot_name 7]) restart_world) 0) =
     Some (Some \<lparr>point = 3, full_name = ''Ann'', username = ''ann''\<rparr>,
           Some \<lparr>point = 1, full_name = ''Bob'', username = ''bob''\<rparr>,
           Some \<lparr>point = 3, full_name = ''Cy'', username = ''cy''\<rparr>,
           [''q1'', ''q2''], None)"
    by code_simp+
  from save_restore_roundtrip [OF reg full codec order keys again restart] reg q full keys again e
  show ?thesis by simp
qed

text \<open>
  C4 as stated fails in its second part.  The sample session is saved while the question
  \<^verbatim>\<open>q1\<close> is in flight and only \<^verbatim>\<open>q2\<close> is left in its deck.  The restored session has the whole
  deck again, and the first question its worker asks is \<^verbatim>\<open>q1\<close>, the question that was in
  flight, not \<^verbatim>\<open>q2\<close>.
\<close>

theorem restore_deck_counterexample:
  "map getQuestion (cards (deck asked_session)) = [''q2''] \<and>
   map_option getQuestion (current_card asked_session) = Some ''q1'' \<and>
   map_sum id waits
     (worker sample_extern 0 [turn_timeout, turn_timeout]
        (init sample_extern (Some [snapshot_name 7]) restart_world)) =
     Inr [AwaitAnswer ''q1'' 30, Delay 5, AwaitAnswer ''q2'' 30] \<and>
   \<not> restore_resumes_deck sample_extern asked_session [turn_timeout, turn_timeout] restart_world"
  by code_simp

end
